theory Spec2Isabelle
  imports Main "HOL-Library.Sublist"
begin

section \<open>Go strings: bytes, UTF-8 and the functions of package strings the server calls\<close>

text \<open>
  A Go string is a sequence of bytes, here a \<^typ>\<open>string\<close> (a list of 8-bit characters).
  The functions below are the parts of the Go standard library (packages unicode/utf8 and
  strings) that the editor of \<^verbatim>\<open>handler_utils.go\<close> calls, written after their Go
  sources.
\<close>

abbreviation LF :: char where "LF \<equiv> CHR 0x0A"
abbreviation CR :: char where "CR \<equiv> CHR 0x0D"

definition RuneError :: int where
  "RuneError = 0xFFFD"

text \<open>Runes and byte values are integers; widths and offsets are natural numbers.

  utf8.DecodeRuneInString: the first rune of the string and its width in bytes; an
  invalid or truncated encoding is the rune RuneError of width 1. The Go function reads the
  size \<open>sz\<close> and the range accepted for the second byte from a table indexed by the first
  byte, returns RuneError when fewer than \<open>sz\<close> bytes are left, and then checks the
  continuation bytes in turn; \<open>decode2\<close>, \<open>decode3\<close> and \<open>decode4\<close> are these steps for
  the sizes 2, 3 and 4.\<close>

definition contByte :: "int \<Rightarrow> int \<Rightarrow> int \<Rightarrow> bool" where
  "contByte lo hi b = (lo \<le> b \<and> b \<le> hi)"

fun decode2 :: "int \<Rightarrow> string \<Rightarrow> int \<times> nat" where
  "decode2 s0 (c1 # _) =
     (let s1 = (of_char c1 :: int) in
      if \<not> contByte 0x80 0xBF s1 then (RuneError, 1)
      else ((s0 mod 32) * 64 + s1 mod 64, 2))"
| "decode2 s0 _ = (RuneError, 1)"

fun decode3 :: "int \<Rightarrow> int \<Rightarrow> int \<Rightarrow> string \<Rightarrow> int \<times> nat" where
  "decode3 s0 lo hi (c1 # c2 # _) =
     (let s1 = (of_char c1 :: int); s2 = (of_char c2 :: int) in
      if \<not> contByte lo hi s1 then (RuneError, 1)
      else if \<not> contByte 0x80 0xBF s2 then (RuneError, 1)
      else ((s0 mod 16) * 4096 + (s1 mod 64) * 64 + s2 mod 64, 3))"
| "decode3 s0 lo hi _ = (RuneError, 1)"

fun decode4 :: "int \<Rightarrow> int \<Rightarrow> int \<Rightarrow> string \<Rightarrow> int \<times> nat" where
  "decode4 s0 lo hi (c1 # c2 # c3 # _) =
     (let s1 = (of_char c1 :: int); s2 = (of_char c2 :: int); s3 = (of_char c3 :: int) in
      if \<not> contByte lo hi s1 then (RuneError, 1)
      else if \<not> contByte 0x80 0xBF s2 then (RuneError, 1)
      else if \<not> contByte 0x80 0xBF s3 then (RuneError, 1)
      else ((s0 mod 8) * 262144 + (s1 mod 64) * 4096 + (s2 mod 64) * 64 + s3 mod 64, 4))"
| "decode4 s0 lo hi _ = (RuneError, 1)"

fun decodeRuneInString :: "string \<Rightarrow> int \<times> nat" where
  "decodeRuneInString [] = (RuneError, 0)"
| "decodeRuneInString (c0 # rest) =
     (let s0 = (of_char c0 :: int) in
      if s0 < 0x80 then (s0, 1)
      else if s0 < 0xC2 \<or> 0xF4 < s0 then (RuneError, 1)
      else if s0 < 0xE0 then decode2 s0 rest
      else if s0 < 0xF0 then
        decode3 s0 (if s0 = 0xE0 then 0xA0 else 0x80) (if s0 = 0xED then 0x9F else 0xBF) rest
      else
        decode4 s0 (if s0 = 0xF0 then 0x90 else 0x80) (if s0 = 0xF4 then 0x8F else 0xBF) rest)"

definition runeStart :: "char \<Rightarrow> bool" where
  "runeStart c = (\<not> (0x80 \<le> (of_char c :: int) \<and> (of_char c :: int) < 0xC0))"

text \<open>utf8.DecodeLastRuneInString. The Go loop steps back over at most three bytes looking
  for a byte that starts a rune; the three steps are written out as a search through the
  offsets 2, 3 and 4 from the end.\<close>

definition decodeLastRuneInString :: "string \<Rightarrow> int \<times> nat" where
  "decodeLastRuneInString s =
     (let e = length s in
      if e = 0 then (RuneError, 0)
      else
        let r = (of_char (s ! (e - 1)) :: int) in
        if r < 0x80 then (r, 1)
        else
          let start = (case find (\<lambda>k. k \<le> e \<and> runeStart (s ! (e - k))) [2, 3, 4] of
                         Some k \<Rightarrow> e - k
                       | None \<Rightarrow> (if e \<le> 4 then 0 else e - 5));
              (r', size) = decodeRuneInString (drop start s)
          in if start + size \<noteq> e then (RuneError, 1) else (r', size))"

text \<open>unicode.IsSpace.\<close>

definition isSpace :: "int \<Rightarrow> bool" where
  "isSpace r = (r \<in> {0x09, 0x0A, 0x0B, 0x0C, 0x0D, 0x20, 0x85, 0xA0, 0x1680, 0x2028, 0x2029,
                      0x202F, 0x205F, 0x3000} \<or> (0x2000 \<le> r \<and> r \<le> 0x200A))"

lemma decode2_width: "0 < snd (decode2 s0 r) \<and> snd (decode2 s0 r) \<le> Suc (length r)"
  by (cases "(s0, r)" rule: decode2.cases) (simp_all add: Let_def)

lemma decode3_width: "0 < snd (decode3 s0 lo hi r) \<and> snd (decode3 s0 lo hi r) \<le> Suc (length r)"
  by (cases "(s0, lo, hi, r)" rule: decode3.cases) (simp_all add: Let_def)

lemma decode4_width: "0 < snd (decode4 s0 lo hi r) \<and> snd (decode4 s0 lo hi r) \<le> Suc (length r)"
  by (cases "(s0, lo, hi, r)" rule: decode4.cases) (simp_all add: Let_def)

lemma decodeRuneInString_width: "s \<noteq> [] \<Longrightarrow> 0 < snd (decodeRuneInString s)"
  by (cases s) (simp_all add: Let_def decode2_width decode3_width decode4_width)

lemma decodeRuneInString_width_le: "snd (decodeRuneInString s) \<le> length s"
  by (cases s) (simp_all add: Let_def decode2_width decode3_width decode4_width)

lemma decodeLastRuneInString_width: "s \<noteq> [] \<Longrightarrow> 0 < snd (decodeLastRuneInString s)"
proof -
  assume ne: "s \<noteq> []"
  define start where "start = (case find (\<lambda>k. k \<le> length s \<and> runeStart (s ! (length s - k))) [2, 3, 4] of
                         Some k \<Rightarrow> length s - k
                       | None \<Rightarrow> (if length s \<le> 4 then 0 else length s - 5))"
  obtain r' size where d: "decodeRuneInString (drop start s) = (r', size)" by force
  have "decodeLastRuneInString s =
     (if (of_char (s ! (length s - 1)) :: int) < 0x80 then (of_char (s ! (length s - 1)), 1)
      else if start + size \<noteq> length s then (RuneError, 1) else (r', size))"
    using ne d unfolding decodeLastRuneInString_def Let_def start_def [symmetric] by simp
  moreover have "start + size = length s \<Longrightarrow> 0 < size"
  proof -
    assume e: "start + size = length s"
    show "0 < size"
    proof (rule ccontr)
      assume "\<not> 0 < size"
      then have "size = 0" by simp
      with e have "drop start s = []" by simp
      moreover have "start < length s"
        using ne unfolding start_def by (auto split: option.splits dest!: find_Some_iff [THEN iffD1] simp: nth_Cons')
      ultimately show False by simp
    qed
  qed
  ultimately show ?thesis by auto
qed

text \<open>utf8.RuneCountInString.\<close>

function runeCountInString :: "string \<Rightarrow> nat" where
  "runeCountInString s =
     (if s = [] then 0 else Suc (runeCountInString (drop (snd (decodeRuneInString s)) s)))"
  by pat_completeness auto
termination
  by (relation "measure length") (auto simp: decodeRuneInString_width)

declare runeCountInString.simps [simp del]

text \<open>strings.Index, with \<open>None\<close> for Go's \<open>-1\<close>.\<close>

fun stringsIndex :: "string \<Rightarrow> string \<Rightarrow> nat option" where
  "stringsIndex [] substr = (if substr = [] then Some 0 else None)"
| "stringsIndex (c # cs) substr =
     (if prefix substr (c # cs) then Some 0 else map_option Suc (stringsIndex cs substr))"

definition stringsContains :: "string \<Rightarrow> string \<Rightarrow> bool" where
  "stringsContains s substr = (stringsIndex s substr \<noteq> None)"

definition stringsHasPrefix :: "string \<Rightarrow> string \<Rightarrow> bool" where
  "stringsHasPrefix s pre = prefix pre s"

definition stringsHasSuffix :: "string \<Rightarrow> string \<Rightarrow> bool" where
  "stringsHasSuffix s suf = suffix suf s"

lemma stringsIndex_bound: "stringsIndex s substr = Some i \<Longrightarrow> i + length substr \<le> length s"
proof (induction s arbitrary: i)
  case Nil
  then show ?case by (simp split: if_splits)
next
  case (Cons c cs)
  show ?case
  proof (cases "prefix substr (c # cs)")
    case True
    with Cons.prems prefix_length_le [of substr "c # cs"] show ?thesis by simp
  next
    case False
    with Cons.prems obtain j where "stringsIndex cs substr = Some j" "i = Suc j"
      by auto
    with Cons.IH show ?thesis by fastforce
  qed
qed

text \<open>strings.Count: the number of non-overlapping instances, found from the left; for the
  empty substring, one more than the number of runes.\<close>

function stringsCount :: "string \<Rightarrow> string \<Rightarrow> nat" where
  "stringsCount s substr =
     (if substr = [] then runeCountInString s + 1
      else case stringsIndex s substr of
             None \<Rightarrow> 0
           | Some i \<Rightarrow> Suc (stringsCount (drop (i + length substr) s) substr))"
  by pat_completeness auto
termination
proof (relation "measure (\<lambda>(s, substr). length s)", goal_cases)
  case 1
  show ?case by simp
next
  case (2 s substr i)
  from stringsIndex_bound [OF 2(2)] 2(1) show ?case by (cases substr) auto
qed

declare stringsCount.simps [simp del]

text \<open>strings.Replace: the first \<open>n\<close> non-overlapping instances of \<open>old\<close> replaced by
  \<open>new\<close>, all of them when \<open>n < 0\<close>. \<open>replaceLoop\<close> is the loop of the Go function, run
  for the number of replacements computed before it; its flag says whether this is the
  first round, where an empty \<open>old\<close> matches at offset 0 and later one rune further.\<close>

fun replaceLoop :: "nat \<Rightarrow> bool \<Rightarrow> string \<Rightarrow> string \<Rightarrow> string \<Rightarrow> string" where
  "replaceLoop 0 first s old new = s"
| "replaceLoop (Suc k) first s old new =
     (let j = (if old = [] then (if first then 0 else snd (decodeRuneInString s))
               else (case stringsIndex s old of Some i \<Rightarrow> i | None \<Rightarrow> length s))
      in take j s @ new @ replaceLoop k False (drop (j + length old) s) old new)"

definition stringsReplace :: "string \<Rightarrow> string \<Rightarrow> string \<Rightarrow> int \<Rightarrow> string" where
  "stringsReplace s old new n =
     (if old = new \<or> n = 0 then s
      else
        let m = stringsCount s old in
        if m = 0 then s
        else replaceLoop (if n < 0 \<or> int m < n then m else nat n) True s old new)"

definition stringsReplaceAll :: "string \<Rightarrow> string \<Rightarrow> string \<Rightarrow> string" where
  "stringsReplaceAll s old new = stringsReplace s old new (- 1)"

text \<open>strings.Split for a separator that is not empty (the server only splits at line
  feeds) and strings.Join.\<close>

function stringsSplit :: "string \<Rightarrow> string \<Rightarrow> string list" where
  "stringsSplit s sep =
     (if sep = [] then [s]
      else case stringsIndex s sep of
             None \<Rightarrow> [s]
           | Some i \<Rightarrow> take i s # stringsSplit (drop (i + length sep) s) sep)"
  by pat_completeness auto
termination
proof (relation "measure (\<lambda>(s, sep). length s)", goal_cases)
  case 1
  show ?case by simp
next
  case (2 s sep i)
  from stringsIndex_bound [OF 2(2)] 2(1) show ?case by (cases sep) auto
qed

declare stringsSplit.simps [simp del]

fun stringsJoin :: "string list \<Rightarrow> string \<Rightarrow> string" where
  "stringsJoin [] sep = []"
| "stringsJoin [a] sep = a"
| "stringsJoin (a # b # rest) sep = a @ sep @ stringsJoin (b # rest) sep"

text \<open>strings.TrimLeftFunc and strings.TrimRightFunc at unicode.IsSpace, and
  strings.TrimSpace, which removes leading and trailing Unicode white space (its separate
  loop over ASCII bytes computes the same result faster).\<close>

function trimLeftSpace :: "string \<Rightarrow> string" where
  "trimLeftSpace s =
     (if s = [] then []
      else if isSpace (fst (decodeRuneInString s))
           then trimLeftSpace (drop (snd (decodeRuneInString s)) s)
           else s)"
  by pat_completeness auto
termination
  by (relation "measure length") (auto simp: decodeRuneInString_width)

declare trimLeftSpace.simps [simp del]

text \<open>lastIndexFunc at the negation of unicode.IsSpace: the offset of the last rune that is
  not white space, \<open>-1\<close> when there is none. The Go loop decodes the last rune of
  \<open>s[0:i]\<close> and lowers \<open>i\<close> by its size; here the prefix \<open>s[0:i]\<close> is the argument.\<close>

function lastIndexNotSpace :: "string \<Rightarrow> int" where
  "lastIndexNotSpace s =
     (if s = [] then - 1
      else
        let i = length s - snd (decodeLastRuneInString s) in
        if \<not> isSpace (fst (decodeLastRuneInString s)) then int i
        else lastIndexNotSpace (take i s))"
  by pat_completeness auto
termination
proof (relation "measure length", goal_cases)
  case 1
  show ?case by simp
next
  case (2 s i)
  with decodeLastRuneInString_width [of s] show ?case by simp
qed

declare lastIndexNotSpace.simps [simp del]

definition trimRightSpace :: "string \<Rightarrow> string" where
  "trimRightSpace s =
     (let i = lastIndexNotSpace s in
      if 0 \<le> i \<and> 0x80 \<le> (of_char (s ! nat i) :: int)
      then take (nat i + snd (decodeRuneInString (drop (nat i) s))) s
      else take (nat (i + 1)) s)"

definition stringsTrimSpace :: "string \<Rightarrow> string" where
  "stringsTrimSpace s = trimRightSpace (trimLeftSpace s)"

text \<open>strings.TrimLeft for a cutset of ASCII bytes.\<close>

definition stringsTrimLeft :: "string \<Rightarrow> string \<Rightarrow> string" where
  "stringsTrimLeft s cutset = dropWhile (\<lambda>c. c \<in> set cutset) s"

section \<open>The editor (\<^verbatim>\<open>handler_utils.go\<close>)\<close>

text \<open>Package regexp is not part of the repository. The two fixed uses of it are written
  out: \<open>normalizeWhitespace\<close> replaces every maximal run of the bytes matched by \<open>\s\<close>
  (tab, line feed, form feed, carriage return, space) by one space, and regexp.QuoteMeta
  puts a backslash before each of the bytes \<^verbatim>\<open>\.+*?()|[]{}^$\<close>. Matching a pattern built
  from the caller's text is a parameter of the editor.\<close>

record regexp_engine =
  compileOk :: "string \<Rightarrow> bool"
  findAllString :: "string \<Rightarrow> string \<Rightarrow> string list"
  replaceAllString :: "string \<Rightarrow> string \<Rightarrow> string \<Rightarrow> string"

definition isReSpace :: "char \<Rightarrow> bool" where
  "isReSpace c = (c \<in> {CHR 0x09, CHR 0x0A, CHR 0x0C, CHR 0x0D, CHR 0x20})"

function normalizeWhitespace :: "string \<Rightarrow> string" where
  "normalizeWhitespace [] = []"
| "normalizeWhitespace (c # cs) =
     (if isReSpace c then CHR 0x20 # normalizeWhitespace (dropWhile isReSpace cs)
      else c # normalizeWhitespace cs)"
  by pat_completeness auto
termination
  by (relation "measure length") (auto simp: length_dropWhile_le less_Suc_eq_le)

definition backslash :: char where
  "backslash = CHR 0x5C"

definition regexpQuoteMeta :: "string \<Rightarrow> string" where
  "regexpQuoteMeta s =
     concat (map (\<lambda>c. if c \<in> {CHR 0x5C, CHR 0x2E, CHR 0x2B, CHR 0x2A, CHR 0x3F, CHR 0x28,
                                 CHR 0x29, CHR 0x7C, CHR 0x5B, CHR 0x5D, CHR 0x7B, CHR 0x7D,
                                 CHR 0x5E, CHR 0x24}
                       then [backslash, c] else [c]) s)"

record EditResult =
  ModifiedContent :: string
  ReplacementCount :: nat
  MatchConfidence :: string
  LinesAffected :: nat

datatype edit_error = OldTextEmpty | NoMatchesFound string

definition normalizeLineEndings :: "string \<Rightarrow> string" where
  "normalizeLineEndings s = stringsReplaceAll (stringsReplaceAll s [CR, LF] [LF]) [CR] [LF]"

definition getIndentation :: "string \<Rightarrow> string" where
  "getIndentation line =
     (let trimmed = stringsTrimLeft line [CHR 0x20, CHR 0x09]
      in take (length line - length trimmed) line)"

definition reconstructLine :: "string \<Rightarrow> string \<Rightarrow> string \<Rightarrow> nat \<Rightarrow> string" where
  "reconstructLine original oldText newText normalizedPos =
     stringsReplace original (stringsTrimSpace oldText) (stringsTrimSpace newText) 1"

definition findMultilineMatch :: "string \<Rightarrow> string \<Rightarrow> bool" where
  "findMultilineMatch content pattern =
     (stringsContains pattern [LF] \<and> stringsContains content pattern)"

definition makeFlexiblePattern :: "string \<Rightarrow> string" where
  "makeFlexiblePattern escaped =
     (let pattern = stringsReplaceAll escaped [backslash, CHR 0x20] (backslash # ''s+'')
      in stringsReplaceAll pattern [backslash, CHR ''n'']
           (backslash # ''s*'' @ backslash # ''n'' @ backslash # ''s*''))"

text \<open>countAffectedLines: the number of distinct line numbers covered by the first
  occurrence of each match.\<close>

definition countAffectedLines :: "string \<Rightarrow> string list \<Rightarrow> nat" where
  "countAffectedLines content matches =
     length (remdups (concat (map (\<lambda>m.
        case stringsIndex content m of
          None \<Rightarrow> []
        | Some idx \<Rightarrow>
            let lineNum = stringsCount (take idx content) [LF];
                matchLines = stringsCount m [LF] + 1
            in map (\<lambda>i. lineNum + i) [0 ..< matchLines]) matches)))"

text \<open>One round of the loop over the lines of performIntelligentEdit: the line that
  replaces \<open>line\<close>, the number of replacements it adds, and whether the line was
  replaced.\<close>

definition editLine :: "string \<Rightarrow> string \<Rightarrow> string \<Rightarrow> string \<times> nat \<times> bool" where
  "editLine line oldText newText =
     (let normalizedOld = stringsTrimSpace oldText;
          trimmedLine = stringsTrimSpace line
      in if trimmedLine = normalizedOld
         then (getIndentation line @ stringsTrimSpace newText, 1, True)
         else if stringsContains line oldText
         then (stringsReplaceAll line oldText newText, stringsCount line oldText, True)
         else if stringsContains line normalizedOld
         then (stringsReplaceAll line normalizedOld newText, stringsCount line normalizedOld,
               True)
         else
           let lineNormalized = normalizeWhitespace line;
               oldNormalized = normalizeWhitespace oldText
           in if stringsContains lineNormalized oldNormalized
              then (case stringsIndex lineNormalized oldNormalized of
                      Some idx \<Rightarrow> (reconstructLine line oldText newText idx, 1, True)
                    | None \<Rightarrow> (line, 0, False))
              else (line, 0, False))"

fun editLoop ::
  "string list \<Rightarrow> string \<Rightarrow> string \<Rightarrow> string list \<times> nat \<times> nat \<Rightarrow> string list \<times> nat \<times> nat"
where
  "editLoop [] oldText newText acc = acc"
| "editLoop (line # rest) oldText newText (newLines, replacements, linesAffected) =
     (case editLine line oldText newText of
        (l, k, replaced) \<Rightarrow>
          editLoop rest oldText newText
            (newLines @ [l], replacements + k,
             if replaced then linesAffected + 1 else linesAffected))"

definition performIntelligentEdit ::
  "regexp_engine \<Rightarrow> string \<Rightarrow> string \<Rightarrow> string \<Rightarrow> EditResult option \<times> edit_error option"
where
  "performIntelligentEdit re content0 oldText0 newText0 =
     (if oldText0 = [] then (None, Some OldTextEmpty)
      else
        let content = normalizeLineEndings content0;
            oldText = normalizeLineEndings oldText0;
            newText = normalizeLineEndings newText0;
            exactMatches = stringsCount content oldText
        in if 0 < exactMatches
           then
             (Some \<lparr>ModifiedContent = stringsReplaceAll content oldText newText,
                    ReplacementCount = exactMatches,
                    MatchConfidence = ''high'',
                    LinesAffected =
                      length (filter (\<lambda>line. stringsContains line oldText)
                                (stringsSplit content [LF]))\<rparr>,
              None)
           else
             (case editLoop (stringsSplit content [LF]) oldText newText ([], 0, 0) of
                (newLines, replacements, linesAffected) \<Rightarrow>
                  if replacements = 0 \<and> findMultilineMatch content oldText
                  then (Some \<lparr>ModifiedContent = stringsReplaceAll content oldText newText,
                               ReplacementCount = 1,
                               MatchConfidence = ''medium'',
                               LinesAffected = stringsCount oldText [LF] + 1\<rparr>,
                        None)
                  else
                    let flexiblePattern = makeFlexiblePattern (regexpQuoteMeta oldText) in
                    if replacements = 0 \<and> compileOk re flexiblePattern
                       \<and> 0 < length (findAllString re flexiblePattern content)
                    then (Some \<lparr>ModifiedContent =
                                   replaceAllString re flexiblePattern content newText,
                                 ReplacementCount =
                                   length (findAllString re flexiblePattern content),
                                 MatchConfidence = ''low'',
                                 LinesAffected =
                                   countAffectedLines content
                                     (findAllString re flexiblePattern content)\<rparr>,
                          None)
                    else if 0 < replacements
                    then (Some \<lparr>ModifiedContent = stringsJoin newLines [LF],
                                 ReplacementCount = replacements,
                                 MatchConfidence = ''medium'',
                                 LinesAffected = linesAffected\<rparr>,
                          None)
                    else (Some \<lparr>ModifiedContent = content,
                                 ReplacementCount = 0,
                                 MatchConfidence = ''none'',
                                 LinesAffected = 0\<rparr>,
                          Some (NoMatchesFound oldText))))"

section \<open>Notions the statements about the editor use\<close>

text \<open>\<open>replaced_all old new s r k\<close>: \<open>r\<close> is \<open>s\<close> with its \<open>k\<close> occurrences of \<open>old\<close>
  replaced by \<open>new\<close>, the occurrences taken from the left and not overlapping: either
  \<open>old\<close> does not occur in \<open>s\<close>, or \<open>s\<close> is \<open>pre @ old @ rest\<close> with no occurrence of
  \<open>old\<close> that starts inside \<open>pre\<close>, and the rest is treated in the same way.\<close>

inductive replaced_all :: "string \<Rightarrow> string \<Rightarrow> string \<Rightarrow> string \<Rightarrow> nat \<Rightarrow> bool" where
  no_occurrence: "\<not> sublist old s \<Longrightarrow> replaced_all old new s s 0"
| leftmost_occurrence:
    "s = pre @ old @ rest \<Longrightarrow> \<not> sublist old (pre @ butlast old) \<Longrightarrow>
     replaced_all old new rest r k \<Longrightarrow> replaced_all old new s (pre @ new @ r) (Suc k)"


text \<open>An engine at which no pattern matches anything. It stands for package regexp in
  evaluations on inputs where the flexible pattern of the editor is never tried or matches
  nowhere.\<close>

definition noMatchEngine :: regexp_engine where
  "noMatchEngine =
     \<lparr>compileOk = (\<lambda>_. True), findAllString = (\<lambda>_ _. []), replaceAllString = (\<lambda>_ s _. s)\<rparr>"

text \<open>The file of the end-to-end editing scenarios of the specification.\<close>

definition scenario_content :: string where
  "scenario_content =
     ''This is line 1'' @ [LF] @ ''This is line 2'' @ [LF] @ ''    This has indentation''"


text \<open>The result of editing it in the exact-match scenario.\<close>

definition scenario_edited :: EditResult where
  "scenario_edited =
     \<lparr>ModifiedContent = ''This is line 1'' @ [LF] @ ''This is LINE TWO'' @ [LF]
                           @ ''    This has indentation'',
      ReplacementCount = 1, MatchConfidence = ''high'', LinesAffected = 1\<rparr>"



section \<open>Paths (package path/filepath on Unix)\<close>

text \<open>The path functions of the Go standard library, for the separator \<open>/\<close>.
  filepath.Clean splits the path at separators, drops empty elements and \<open>.\<close>, lets
  \<open>..\<close> remove the element before it (at the root it is dropped, in a relative path with
  nothing to remove it is kept) and joins what remains; \<open>cleanStep\<close> treats one
  element, with the elements kept so far.\<close>

abbreviation (input) Separator :: char where "Separator \<equiv> CHR ''/''"

fun splitSlash :: "string \<Rightarrow> string list" where
  "splitSlash [] = [[]]"
| "splitSlash (c # cs) =
     (if c = Separator then [] # splitSlash cs
      else (case splitSlash cs of [] \<Rightarrow> [[c]] | e # es \<Rightarrow> (c # e) # es))"

definition cleanStep :: "bool \<Rightarrow> string list \<Rightarrow> string \<Rightarrow> string list" where
  "cleanStep rooted out e =
     (if e = [] \<or> e = ''.'' then out
      else if e = ''..''
      then (if out \<noteq> [] \<and> last out \<noteq> ''..'' then butlast out
            else if rooted then out
            else out @ [''..''])
      else out @ [e])"

definition filepathClean :: "string \<Rightarrow> string" where
  "filepathClean path =
     (if path = [] then ''.''
      else
        let rooted = (hd path = Separator);
            out = foldl (cleanStep rooted) [] (splitSlash path);
            r = (if rooted then [Separator] else []) @ stringsJoin out [Separator]
        in if r = [] then ''.'' else r)"

definition filepathIsAbs :: "string \<Rightarrow> bool" where
  "filepathIsAbs path = stringsHasPrefix path [Separator]"

text \<open>filepath.Dir: the path up to and including its last separator, cleaned.\<close>

definition filepathDir :: "string \<Rightarrow> string" where
  "filepathDir path = filepathClean (rev (dropWhile (\<lambda>c. c \<noteq> Separator) (rev path)))"

text \<open>filepath.Join of two elements.\<close>

definition filepathJoin :: "string \<Rightarrow> string \<Rightarrow> string" where
  "filepathJoin a b =
     (if a \<noteq> [] then filepathClean (a @ [Separator] @ b)
      else if b \<noteq> [] then filepathClean b
      else [])"

section \<open>The operating system as the server sees it\<close>

text \<open>An error of the operating system carries what the server looks at: whether
  os.IsNotExist holds of it, and its text.\<close>

datatype os_error = OsError (isNotExist: bool) (errorText: string)

record file_info =
  isDir :: bool
  fileSize :: int

text \<open>A walk of a directory tree calls its function once for every entry, with the path,
  the entry's data, and whether reading the entry failed.\<close>

record walk_entry =
  entryPath :: string
  entryInfo :: file_info
  entryFailed :: bool

datatype syscall =
    SysGetwd
  | SysStat string
  | SysEvalSymlinks string
  | SysDetectMime string
  | SysReadFile string
  | SysWriteFile string string
  | SysRemove string
  | SysRename string string
  | SysMkdirAll string
  | SysWalk string

text \<open>A call that changes or reads file contents can fail: before it has any effect, or,
  for a write, after the file was created or truncated and only the first bytes of the
  data were written.\<close>

datatype fault = Fails os_error | FailsAfter nat os_error

fun faultError :: "fault \<Rightarrow> os_error" where
  "faultError (Fails e) = e"
| "faultError (FailsAfter k e) = e"

text \<open>The environment: what the operating system answers. The working directory, the
  data of a path (os.Stat, which follows symbolic links), the resolution of symbolic links
  (filepath.EvalSymlinks), the detected MIME type of a file, the entries of a walk and the
  MD5 digest are given; whether a call on file contents fails is decided from the calls made
  so far and the call at hand.\<close>

record os_env =
  getwd :: "os_error + string"
  stat :: "string \<Rightarrow> os_error + file_info"
  evalSymlinks :: "string \<Rightarrow> os_error + string"
  mimeOf :: "string \<Rightarrow> string"
  walkEntries :: "string \<Rightarrow> walk_entry list"
  md5hex :: "string \<Rightarrow> string"
  faultOf :: "syscall list \<Rightarrow> syscall \<Rightarrow> fault option"

text \<open>The state: the contents of the regular files, by path (two different paths are taken
  to name two different files), and the calls made so far.\<close>

record world =
  fileContents :: "string \<rightharpoonup> string"
  trace :: "syscall list"

definition logCall :: "syscall \<Rightarrow> world \<Rightarrow> world" where
  "logCall c w = w\<lparr>trace := trace w @ [c]\<rparr>"

definition notExistError :: "string \<Rightarrow> string \<Rightarrow> os_error" where
  "notExistError op path = OsError True (op @ '' '' @ path @ '': no such file or directory'')"

definition os_Getwd :: "os_env \<Rightarrow> world \<Rightarrow> (os_error + string) \<times> world" where
  "os_Getwd env w = (getwd env, logCall SysGetwd w)"

definition os_Stat :: "os_env \<Rightarrow> string \<Rightarrow> world \<Rightarrow> (os_error + file_info) \<times> world" where
  "os_Stat env path w = (stat env path, logCall (SysStat path) w)"

definition filepathEvalSymlinks ::
  "os_env \<Rightarrow> string \<Rightarrow> world \<Rightarrow> (os_error + string) \<times> world" where
  "filepathEvalSymlinks env path w = (evalSymlinks env path, logCall (SysEvalSymlinks path) w)"

definition os_ReadFile :: "os_env \<Rightarrow> string \<Rightarrow> world \<Rightarrow> (os_error + string) \<times> world" where
  "os_ReadFile env path w =
     (case faultOf env (trace w) (SysReadFile path) of
        Some f \<Rightarrow> (Inl (faultError f), logCall (SysReadFile path) w)
      | None \<Rightarrow>
          (case fileContents w path of
             None \<Rightarrow> (Inl (notExistError ''open'' path), logCall (SysReadFile path) w)
           | Some content \<Rightarrow> (Inr content, logCall (SysReadFile path) w)))"

text \<open>os.WriteFile opens the file with O_CREATE and O_TRUNC, writes, and closes.\<close>

definition os_WriteFile ::
  "os_env \<Rightarrow> string \<Rightarrow> string \<Rightarrow> world \<Rightarrow> os_error option \<times> world" where
  "os_WriteFile env path data w =
     (case faultOf env (trace w) (SysWriteFile path data) of
        Some (Fails e) \<Rightarrow> (Some e, logCall (SysWriteFile path data) w)
      | Some (FailsAfter k e) \<Rightarrow>
          (Some e, logCall (SysWriteFile path data) (w\<lparr>fileContents := (fileContents w)(path \<mapsto> take k data)\<rparr>))
      | None \<Rightarrow>
          (None, logCall (SysWriteFile path data) (w\<lparr>fileContents := (fileContents w)(path \<mapsto> data)\<rparr>)))"

definition os_Remove :: "os_env \<Rightarrow> string \<Rightarrow> world \<Rightarrow> os_error option \<times> world" where
  "os_Remove env path w =
     (case faultOf env (trace w) (SysRemove path) of
        Some f \<Rightarrow> (Some (faultError f), logCall (SysRemove path) w)
      | None \<Rightarrow>
          (case fileContents w path of
             None \<Rightarrow> (Some (notExistError ''remove'' path), logCall (SysRemove path) w)
           | Some content \<Rightarrow>
               (None, logCall (SysRemove path) (w\<lparr>fileContents := (fileContents w)(path := None)\<rparr>))))"

definition os_Rename ::
  "os_env \<Rightarrow> string \<Rightarrow> string \<Rightarrow> world \<Rightarrow> os_error option \<times> world" where
  "os_Rename env oldpath newpath w =
     (case faultOf env (trace w) (SysRename oldpath newpath) of
        Some f \<Rightarrow> (Some (faultError f), logCall (SysRename oldpath newpath) w)
      | None \<Rightarrow>
          (case fileContents w oldpath of
             None \<Rightarrow>
               (Some (notExistError ''rename'' oldpath), logCall (SysRename oldpath newpath) w)
           | Some content \<Rightarrow>
               (None, logCall (SysRename oldpath newpath)
                        (w\<lparr>fileContents := ((fileContents w)(newpath \<mapsto> content))(oldpath := None)\<rparr>))))"

definition os_MkdirAll :: "os_env \<Rightarrow> string \<Rightarrow> world \<Rightarrow> os_error option \<times> world" where
  "os_MkdirAll env path w =
     (case faultOf env (trace w) (SysMkdirAll path) of
        Some f \<Rightarrow> (Some (faultError f), logCall (SysMkdirAll path) w)
      | None \<Rightarrow> (None, logCall (SysMkdirAll path) w))"

text \<open>filepath.Abs: a path that is not absolute is joined to the working directory.\<close>

definition filepathAbs :: "os_env \<Rightarrow> string \<Rightarrow> world \<Rightarrow> (os_error + string) \<times> world" where
  "filepathAbs env path w =
     (if filepathIsAbs path then (Inr (filepathClean path), w)
      else
        (case os_Getwd env w of
           (Inl e, w') \<Rightarrow> (Inl e, w')
         | (Inr wd, w') \<Rightarrow> (Inr (filepathJoin wd path), w')))"

section \<open>The path sandbox (\<^verbatim>\<open>handler.go\<close>)\<close>

text \<open>A Go error is modelled by its message.\<close>

type_synonym go_error = string

record FilesystemHandler =
  allowedDirs :: "string list"

fun normalizeDirs ::
  "os_env \<Rightarrow> string list \<Rightarrow> string list \<Rightarrow> world \<Rightarrow> (go_error + string list) \<times> world"
where
  "normalizeDirs env [] normalized w = (Inr normalized, w)"
| "normalizeDirs env (dir # rest) normalized w =
     (case filepathAbs env dir w of
        (Inl e, w1) \<Rightarrow>
          (Inl (''failed to resolve path '' @ dir @ '': '' @ errorText e), w1)
      | (Inr absolute, w1) \<Rightarrow>
          (case os_Stat env absolute w1 of
             (Inl e, w2) \<Rightarrow>
               (Inl (''failed to access directory '' @ absolute @ '': '' @ errorText e), w2)
           | (Inr info, w2) \<Rightarrow>
               if \<not> isDir info then (Inl (''path is not a directory: '' @ absolute), w2)
               else normalizeDirs env rest
                      (normalized @ [filepathClean absolute @ [Separator]]) w2))"

definition NewFilesystemHandler ::
  "os_env \<Rightarrow> string list \<Rightarrow> world \<Rightarrow> (go_error + FilesystemHandler) \<times> world" where
  "NewFilesystemHandler env dirs w =
     (case normalizeDirs env dirs [] w of
        (Inl e, w') \<Rightarrow> (Inl e, w')
      | (Inr normalized, w') \<Rightarrow> (Inr \<lparr>allowedDirs = normalized\<rparr>, w'))"

definition isPathInAllowedDirs ::
  "os_env \<Rightarrow> FilesystemHandler \<Rightarrow> string \<Rightarrow> world \<Rightarrow> bool \<times> world" where
  "isPathInAllowedDirs env fs path w =
     (case filepathAbs env path w of
        (Inl e, w1) \<Rightarrow> (False, w1)
      | (Inr absPath, w1) \<Rightarrow>
          (case (if \<not> stringsHasSuffix absPath [Separator]
                 then (case os_Stat env absPath w1 of
                         (Inr info, w2) \<Rightarrow>
                           if \<not> isDir info then (filepathDir absPath @ [Separator], w2)
                           else (absPath @ [Separator], w2)
                       | (Inl e, w2) \<Rightarrow> (absPath @ [Separator], w2))
                 else (absPath, w1)) of
             (absPath', w3) \<Rightarrow>
               (list_ex (\<lambda>dir. stringsHasPrefix absPath' dir) (allowedDirs fs), w3)))"

definition validatePath ::
  "os_env \<Rightarrow> FilesystemHandler \<Rightarrow> string \<Rightarrow> world \<Rightarrow> (go_error + string) \<times> world" where
  "validatePath env fs requestedPath w =
     (case filepathAbs env requestedPath w of
        (Inl e, w1) \<Rightarrow> (Inl (''invalid path: '' @ errorText e), w1)
      | (Inr absolute, w1) \<Rightarrow>
          (case isPathInAllowedDirs env fs absolute w1 of
             (False, w2) \<Rightarrow>
               (Inl (''access denied - path outside allowed directories: '' @ absolute), w2)
           | (True, w2) \<Rightarrow>
               (case filepathEvalSymlinks env absolute w2 of
                  (Inl e, w3) \<Rightarrow>
                    if \<not> isNotExist e then (Inl (errorText e), w3)
                    else
                      let parent = filepathDir absolute in
                      (case filepathEvalSymlinks env parent w3 of
                         (Inl e', w4) \<Rightarrow>
                           (Inl (''parent directory does not exist: '' @ parent), w4)
                       | (Inr realParent, w4) \<Rightarrow>
                           (case isPathInAllowedDirs env fs realParent w4 of
                              (False, w5) \<Rightarrow>
                                (Inl ''access denied - parent directory outside allowed directories'',
                                 w5)
                            | (True, w5) \<Rightarrow> (Inr absolute, w5)))
                | (Inr realPath, w3) \<Rightarrow>
                    (case isPathInAllowedDirs env fs realPath w3 of
                       (False, w4) \<Rightarrow>
                         (Inl ''access denied - symlink target outside allowed directories'', w4)
                     | (True, w4) \<Rightarrow> (Inr realPath, w4)))))"

text \<open>A canonical path: absolute and unchanged by filepath.Clean. A canonical path \<open>q\<close>
  lies inside the canonical directory \<open>root\<close> when it is \<open>root\<close> or starts with
  \<open>root\<close> followed by a separator (the root directory is its own separator).\<close>

definition canonical :: "string \<Rightarrow> bool" where
  "canonical p = (filepathIsAbs p \<and> filepathClean p = p)"




section \<open>Notions the statements about paths use\<close>






text \<open>The answer of the allow-list check; it depends on the environment and not on the
  state.\<close>

definition pathAllowed :: "os_env \<Rightarrow> FilesystemHandler \<Rightarrow> string \<Rightarrow> bool" where
  "pathAllowed env fs path =
     fst (isPathInAllowedDirs env fs path \<lparr>fileContents = Map.empty, trace = []\<rparr>)"

section \<open>Tool calls and their results\<close>

text \<open>The arguments of a tool call are a map from names to decoded JSON values; the result
  is a list of content items with an error flag (\<^verbatim>\<open>mcp.CallToolResult\<close>). A handler
  returns either such a result or a Go error.\<close>

datatype json = JString string | JNumber int | JBool bool | JNull | JArray "json list"

type_synonym arguments = "string \<rightharpoonup> json"

datatype resource_contents =
    TextResourceContents (resourceURI: string) (resourceMIME: string) (resourceText: string)
  | BlobResourceContents (resourceURI: string) (resourceMIME: string) (resourceBlob: string)

datatype content =
    TextContent string
  | ImageContent (imageData: string) (imageMIME: string)
  | EmbeddedResource resource_contents

record CallToolResult =
  Content :: "content list"
  IsError :: bool

definition MAX_INLINE_SIZE :: int where
  "MAX_INLINE_SIZE = 5 * 1024 * 1024"

definition MAX_BASE64_SIZE :: int where
  "MAX_BASE64_SIZE = 1 * 1024 * 1024"

text \<open>The verb \<open>%d\<close> of fmt.Sprintf at an integer.\<close>

function showDigits :: "int \<Rightarrow> string" where
  "showDigits n =
     (if n < 10 then [''0123456789'' ! nat n]
      else showDigits (n div 10) @ [''0123456789'' ! nat (n mod 10)])"
  by pat_completeness auto
termination
  by (relation "measure nat") auto

declare showDigits.simps [simp del]

definition fmtInt :: "int \<Rightarrow> string" where
  "fmtInt n = (if n < 0 then ''-'' @ showDigits (- n) else showDigits n)"

text \<open>base64.StdEncoding.EncodeToString.\<close>

definition base64Char :: "int \<Rightarrow> char" where
  "base64Char i =
     ''ABCDEFGHIJKLMNOPQRSTUVWXYZabcdefghijklmnopqrstuvwxyz0123456789+/'' ! nat i"

fun base64Encode :: "string \<Rightarrow> string" where
  "base64Encode (a # b # c # rest) =
     (let n = (of_char a :: int) * 65536 + of_char b * 256 + of_char c
      in [base64Char (n div 262144), base64Char ((n div 4096) mod 64),
          base64Char ((n div 64) mod 64), base64Char (n mod 64)] @ base64Encode rest)"
| "base64Encode [a, b] =
     (let n = (of_char a :: int) * 65536 + of_char b * 256
      in [base64Char (n div 262144), base64Char ((n div 4096) mod 64),
          base64Char ((n div 64) mod 64), CHR ''=''])"
| "base64Encode [a] =
     (let n = (of_char a :: int) * 65536
      in [base64Char (n div 262144), base64Char ((n div 4096) mod 64), CHR ''='', CHR ''=''])"
| "base64Encode [] = []"

text \<open>detectMimeType sniffs the content of the file and falls back on its extension; the
  outcome is the environment's.\<close>

definition detectMimeType :: "os_env \<Rightarrow> string \<Rightarrow> world \<Rightarrow> string \<times> world" where
  "detectMimeType env path w = (mimeOf env path, logCall (SysDetectMime path) w)"

definition isTextFile :: "string \<Rightarrow> bool" where
  "isTextFile mimeType =
     (if stringsHasPrefix mimeType ''text/'' then True
      else if mimeType \<in> set [''application/json'', ''application/xml'',
                ''application/javascript'', ''application/x-javascript'',
                ''application/typescript'', ''application/x-typescript'',
                ''application/x-yaml'', ''application/yaml'', ''application/toml'',
                ''application/x-sh'', ''application/x-shellscript'']
      then True
      else if stringsContains mimeType ''+xml'' \<or> stringsContains mimeType ''+json''
              \<or> stringsContains mimeType ''+yaml''
      then True
      else if stringsHasPrefix mimeType ''text/x-'' then True
      else if stringsHasPrefix mimeType ''application/x-''
              \<and> (stringsContains mimeType ''script'' \<or> stringsContains mimeType ''source''
                   \<or> stringsContains mimeType ''code'')
      then True
      else False)"

text \<open>strings.ToLower on ASCII letters; isImageFile applies it only to a string equal to
  \<open>application/xml\<close>.\<close>

definition stringsToLower :: "string \<Rightarrow> string" where
  "stringsToLower s =
     map (\<lambda>c. if 0x41 \<le> (of_char c :: int) \<and> (of_char c :: int) \<le> 0x5A
                then char_of ((of_char c :: int) + 32) else c) s"

definition isImageFile :: "string \<Rightarrow> bool" where
  "isImageFile mimeType =
     (stringsHasPrefix mimeType ''image/''
      \<or> (mimeType = ''application/xml'' \<and> stringsHasSuffix (stringsToLower mimeType) ''.svg''))"

definition pathToResourceURI :: "string \<Rightarrow> string" where
  "pathToResourceURI path = ''file://'' @ path"

definition errorResult :: "string \<Rightarrow> CallToolResult" where
  "errorResult text = \<lparr>Content = [TextContent text], IsError = True\<rparr>"

section \<open>read_file (\<^verbatim>\<open>handler.go\<close>, handleReadFile)\<close>

definition readFileResponse ::
  "string \<Rightarrow> file_info \<Rightarrow> string \<Rightarrow> string \<Rightarrow> CallToolResult" where
  "readFileResponse validPath info mimeType content =
     (if isTextFile mimeType
      then \<lparr>Content = [TextContent content], IsError = False\<rparr>
      else if isImageFile mimeType
      then (if fileSize info \<le> MAX_BASE64_SIZE
            then \<lparr>Content =
                    [TextContent (''Image file: '' @ validPath @ '' ('' @ mimeType @ '', ''
                                  @ fmtInt (fileSize info) @ '' bytes)''),
                     ImageContent (base64Encode content) mimeType],
                  IsError = False\<rparr>
            else
              let resourceURI = pathToResourceURI validPath in
              \<lparr>Content =
                 [TextContent (''Image file is too large to display inline (''
                               @ fmtInt (fileSize info)
                               @ '' bytes). Access it via resource URI: '' @ resourceURI),
                  EmbeddedResource
                    (TextResourceContents resourceURI ''text/plain''
                       (''Large image: '' @ validPath @ '' ('' @ mimeType @ '', ''
                        @ fmtInt (fileSize info) @ '' bytes)''))],
               IsError = False\<rparr>)
      else
        let resourceURI = pathToResourceURI validPath in
        if fileSize info \<le> MAX_BASE64_SIZE
        then \<lparr>Content =
                [TextContent (''Binary file: '' @ validPath @ '' ('' @ mimeType @ '', ''
                              @ fmtInt (fileSize info) @ '' bytes)''),
                 EmbeddedResource
                   (BlobResourceContents resourceURI mimeType (base64Encode content))],
              IsError = False\<rparr>
        else \<lparr>Content =
                [TextContent (''Binary file: '' @ validPath @ '' ('' @ mimeType @ '', ''
                              @ fmtInt (fileSize info)
                              @ '' bytes). Access it via resource URI: '' @ resourceURI),
                 EmbeddedResource
                   (TextResourceContents resourceURI ''text/plain''
                      (''Binary file: '' @ validPath @ '' ('' @ mimeType @ '', ''
                       @ fmtInt (fileSize info) @ '' bytes)''))],
              IsError = False\<rparr>)"

text \<open>The handler, in the order of the source: the shortcut for \<open>.\<close> and \<open>./\<close>
  (\<open>currentDirShortcut\<close>), the validation of the path, the data of the file, and for a
  file that is not too large its content, from which \<open>readFileResponse\<close> builds the
  result.\<close>

definition currentDirShortcut ::
  "os_env \<Rightarrow> string \<Rightarrow> world \<Rightarrow> (CallToolResult + string) \<times> world" where
  "currentDirShortcut env path w =
     (if path = ''.'' \<or> path = ''./''
      then (case os_Getwd env w of
              (Inl e, w1) \<Rightarrow>
                (Inl (errorResult (''Error resolving current directory: '' @ errorText e)), w1)
            | (Inr cwd, w1) \<Rightarrow> (Inr cwd, w1))
      else (Inr path, w))"

definition largeFileReference :: "string \<Rightarrow> file_info \<Rightarrow> string \<Rightarrow> CallToolResult" where
  "largeFileReference validPath info mimeType =
     (let resourceURI = pathToResourceURI validPath in
      \<lparr>Content =
         [TextContent (''File is too large to display inline ('' @ fmtInt (fileSize info)
                       @ '' bytes). Access it via resource URI: '' @ resourceURI),
          EmbeddedResource
            (TextResourceContents resourceURI ''text/plain''
               (''Large file: '' @ validPath @ '' ('' @ mimeType @ '', ''
                @ fmtInt (fileSize info) @ '' bytes)''))],
       IsError = False\<rparr>)"

definition directoryReference :: "string \<Rightarrow> CallToolResult" where
  "directoryReference validPath =
     (let resourceURI = pathToResourceURI validPath in
      \<lparr>Content =
         [TextContent (''This is a directory. Use the resource URI to browse its contents: ''
                       @ resourceURI),
          EmbeddedResource
            (TextResourceContents resourceURI ''text/plain'' (''Directory: '' @ validPath))],
       IsError = False\<rparr>)"

definition handleReadFile ::
  "os_env \<Rightarrow> FilesystemHandler \<Rightarrow> arguments \<Rightarrow> world \<Rightarrow> (go_error + CallToolResult) \<times> world"
where
  "handleReadFile env fs args w =
     (case args ''path'' of
        Some (JString path0) \<Rightarrow>
          (case currentDirShortcut env path0 w of
             (Inl res, w1) \<Rightarrow> (Inr res, w1)
           | (Inr path, w1) \<Rightarrow>
               (case validatePath env fs path w1 of
                  (Inl err, w2) \<Rightarrow> (Inr (errorResult (''Error: '' @ err)), w2)
                | (Inr validPath, w2) \<Rightarrow>
                    (case os_Stat env validPath w2 of
                       (Inl e, w3) \<Rightarrow> (Inr (errorResult (''Error: '' @ errorText e)), w3)
                     | (Inr info, w3) \<Rightarrow>
                         if isDir info then (Inr (directoryReference validPath), w3)
                         else
                           (case detectMimeType env validPath w3 of
                              (mimeType, w4) \<Rightarrow>
                                if MAX_INLINE_SIZE < fileSize info
                                then (Inr (largeFileReference validPath info mimeType), w4)
                                else
                                  (case os_ReadFile env validPath w4 of
                                     (Inl e, w5) \<Rightarrow>
                                       (Inr (errorResult (''Error reading file: ''
                                                          @ errorText e)), w5)
                                   | (Inr content, w5) \<Rightarrow>
                                       (Inr (readFileResponse validPath info mimeType content),
                                        w5))))))
      | _ \<Rightarrow> (Inl ''path must be a string'', w))"




section \<open>edit_file (\<^verbatim>\<open>handler.go\<close>, handleEditFile)\<close>

text \<open>The names of the Go types of decoded JSON values and their rendering by the verb
  \<open>%v\<close>, for the message about an argument that is not a string.\<close>

fun goTypeName :: "json \<Rightarrow> string" where
  "goTypeName (JString s) = ''string''"
| "goTypeName (JNumber n) = ''float64''"
| "goTypeName (JBool b) = ''bool''"
| "goTypeName JNull = ''<nil>''"
| "goTypeName (JArray xs) = ''[]interface {}''"

fun goValueText :: "json \<Rightarrow> string" where
  "goValueText (JString s) = s"
| "goValueText (JNumber n) = fmtInt n"
| "goValueText (JBool b) = (if b then ''true'' else ''false'')"
| "goValueText JNull = ''<nil>''"
| "goValueText (JArray xs) = ''['' @ stringsJoin (map goValueText xs) '' '' @ '']''"

definition requiredString :: "arguments \<Rightarrow> string \<Rightarrow> go_error + string" where
  "requiredString args param =
     (case args param of
        Some (JString v) \<Rightarrow> Inr v
      | Some JNull \<Rightarrow> Inl (''parameter '' @ param @ '' is null'')
      | Some v \<Rightarrow>
          Inl (''parameter '' @ param @ '' must be string, got '' @ goTypeName v @ '': ''
               @ goValueText v)
      | None \<Rightarrow> Inl (''missing required parameter: '' @ param))"

definition validateEditableFile :: "os_env \<Rightarrow> string \<Rightarrow> world \<Rightarrow> go_error option \<times> world" where
  "validateEditableFile env path w =
     (case os_Stat env path w of
        (Inl e, w1) \<Rightarrow> (Some (errorText e), w1)
      | (Inr info, w1) \<Rightarrow>
          if isDir info then (Some ''cannot edit directory'', w1) else (None, w1))"

definition createBackup ::
  "os_env \<Rightarrow> string \<Rightarrow> world \<Rightarrow> (string \<times> os_error option) \<times> world" where
  "createBackup env path w =
     (let backupPath = path @ ''.backup'' in
      case os_ReadFile env path w of
        (Inl e, w1) \<Rightarrow> (([], Some e), w1)
      | (Inr content, w1) \<Rightarrow>
          (case os_WriteFile env backupPath content w1 of
             (err, w2) \<Rightarrow> ((backupPath, err), w2)))"

text \<open>strconv.Quote, which the verb \<open>%q\<close> applies: exact for printable ASCII text and the
  usual control characters; any other byte is copied.\<close>

definition quoteByte :: "char \<Rightarrow> string" where
  "quoteByte c =
     (if c = CHR 0x22 then [backslash, CHR 0x22]
      else if c = backslash then [backslash, backslash]
      else if c = LF then backslash # ''n''
      else if c = CR then backslash # ''r''
      else if c = CHR 0x09 then backslash # ''t''
      else [c])"

definition strconvQuote :: "string \<Rightarrow> string" where
  "strconvQuote s = CHR 0x22 # concat (map quoteByte s) @ [CHR 0x22]"

fun editErrorText :: "edit_error \<Rightarrow> go_error" where
  "editErrorText OldTextEmpty = ''old_text cannot be empty''"
| "editErrorText (NoMatchesFound t) = ''no matches found for text: '' @ strconvQuote t"

text \<open>The marks that open the messages of the server, as UTF-8.\<close>

definition checkMark :: string where
  "checkMark = [CHR 0xE2, CHR 0x9C, CHR 0x85]"

definition crossMark :: string where
  "crossMark = [CHR 0xE2, CHR 0x9D, CHR 0x8C]"

definition chartMark :: string where
  "chartMark = [CHR 0xF0, CHR 0x9F, CHR 0x93, CHR 0x8A]"

definition targetMark :: string where
  "targetMark = [CHR 0xF0, CHR 0x9F, CHR 0x8E, CHR 0xAF]"

definition memoMark :: string where
  "memoMark = [CHR 0xF0, CHR 0x9F, CHR 0x93, CHR 0x9D]"

definition editSuccess :: "string \<Rightarrow> string \<Rightarrow> EditResult \<Rightarrow> CallToolResult" where
  "editSuccess path validPath result =
     \<lparr>Content =
        [TextContent (checkMark @ '' Successfully edited '' @ path @ [LF]
                      @ chartMark @ '' Changes: '' @ fmtInt (int (ReplacementCount result))
                      @ '' replacement(s)'' @ [LF]
                      @ targetMark @ '' Match confidence: '' @ MatchConfidence result @ [LF]
                      @ memoMark @ '' Lines affected: '' @ fmtInt (int (LinesAffected result))),
         EmbeddedResource
           (TextResourceContents (pathToResourceURI validPath) ''text/plain''
              (''Edited: '' @ validPath))],
      IsError = False\<rparr>"

text \<open>The deferred function of handleEditFile: it removes the backup when the function
  returns, on every path after the backup was made, and ignores the outcome.\<close>

definition removeBackup :: "os_env \<Rightarrow> string \<Rightarrow> world \<Rightarrow> world" where
  "removeBackup env backupPath w =
     (if backupPath \<noteq> [] then snd (os_Remove env backupPath w) else w)"

text \<open>handleEditFile. An error returned through \<open>fmt.Errorf(err.Error())\<close> is taken to keep
  its text (fmt would rewrite a percent sign in it).\<close>

definition handleEditFile ::
  "os_env \<Rightarrow> regexp_engine \<Rightarrow> FilesystemHandler \<Rightarrow> arguments \<Rightarrow> world
     \<Rightarrow> (go_error + CallToolResult) \<times> world"
where
  "handleEditFile env re fs args w =
     (case requiredString args ''path'' of
        Inl err \<Rightarrow> (Inl err, w)
      | Inr path \<Rightarrow>
     (case requiredString args ''old_text'' of
        Inl err \<Rightarrow> (Inl err, w)
      | Inr oldText \<Rightarrow>
     (case requiredString args ''new_text'' of
        Inl err \<Rightarrow> (Inl err, w)
      | Inr newText \<Rightarrow>
     (case validatePath env fs path w of
        (Inl err, w1) \<Rightarrow> (Inl (''path error: '' @ err), w1)
      | (Inr validPath, w1) \<Rightarrow>
     (case validateEditableFile env validPath w1 of
        (Some err, w2) \<Rightarrow> (Inl err, w2)
      | (None, w2) \<Rightarrow>
     (case createBackup env validPath w2 of
        ((backupPath, Some e), w3) \<Rightarrow> (Inl (''could not create backup: '' @ errorText e), w3)
      | ((backupPath, None), w3) \<Rightarrow>
     (case os_ReadFile env validPath w3 of
        (Inl e, w4) \<Rightarrow>
          (Inl (''error reading file: '' @ errorText e), removeBackup env backupPath w4)
      | (Inr content, w4) \<Rightarrow>
     (case performIntelligentEdit re content oldText newText of
        (_, Some err) \<Rightarrow> (Inl (editErrorText err), removeBackup env backupPath w4)
      | (None, None) \<Rightarrow> (Inl ''invalid memory address or nil pointer dereference'',
                          removeBackup env backupPath w4)
      | (Some result, None) \<Rightarrow>
     (case os_WriteFile env validPath (ModifiedContent result) w4 of
        (Some e, w5) \<Rightarrow>
          (Inl (''error writing file: '' @ errorText e), removeBackup env backupPath w5)
      | (None, w5) \<Rightarrow>
          (Inr (editSuccess path validPath result), removeBackup env backupPath w5))))))))))"

section \<open>write_file_safe (\<^verbatim>\<open>handler_chunked.go\<close>, handleWriteFileSafe)\<close>

definition stringArg :: "arguments \<Rightarrow> string \<Rightarrow> string" where
  "stringArg args name = (case args name of Some (JString v) \<Rightarrow> v | _ \<Rightarrow> [])"

definition boolArg :: "arguments \<Rightarrow> string \<Rightarrow> bool" where
  "boolArg args name = (case args name of Some (JBool b) \<Rightarrow> b | _ \<Rightarrow> False)"

definition handleWriteFileSafe ::
  "os_env \<Rightarrow> FilesystemHandler \<Rightarrow> arguments \<Rightarrow> world \<Rightarrow> (go_error + CallToolResult) \<times> world"
where
  "handleWriteFileSafe env fs args w =
     (let path = stringArg args ''path'';
          content = stringArg args ''content'';
          createBackupFlag = boolArg args ''create_backup''
      in
      if path = [] \<or> content = []
      then (Inr (errorResult (crossMark @ '' Error: path and content are required'')), w)
      else
     (case validatePath env fs path w of
        (Inl err, w1) \<Rightarrow> (Inr (errorResult (crossMark @ '' Error: '' @ err)), w1)
      | (Inr validPath, w1) \<Rightarrow>
     (case (if createBackupFlag
            then (case os_Stat env validPath w1 of
                    (Inr info, w2) \<Rightarrow> createBackup env validPath w2
                  | (Inl e, w2) \<Rightarrow> (([], None), w2))
            else (([], None), w1)) of
        ((backupPath, Some e), w3) \<Rightarrow>
          (Inr (errorResult (crossMark @ '' Error creating backup: '' @ errorText e)), w3)
      | ((backupPath, None), w3) \<Rightarrow>
     (case os_MkdirAll env (filepathDir validPath) w3 of
        (Some e, w4) \<Rightarrow>
          (Inr (errorResult (crossMark @ '' Error creating directory: '' @ errorText e)), w4)
      | (None, w4) \<Rightarrow>
     (let tempPath = validPath @ ''.tmp'' in
      case os_WriteFile env tempPath content w4 of
        (Some e, w5) \<Rightarrow>
          (Inr (errorResult (crossMark @ '' Error writing temp file: '' @ errorText e)), w5)
      | (None, w5) \<Rightarrow>
     (case os_Rename env tempPath validPath w5 of
        (Some e, w6) \<Rightarrow>
          (Inr (errorResult (crossMark @ '' Error finalizing file: '' @ errorText e)),
           snd (os_Remove env tempPath w6))
      | (None, w6) \<Rightarrow>
     (case os_Stat env validPath w6 of
        (info, w7) \<Rightarrow>
          let size = (case info of Inr i \<Rightarrow> fileSize i | Inl e \<Rightarrow> int (length content));
              result = checkMark @ '' Safe write completed: '' @ path @ [LF] @ ''Size: ''
                       @ fmtInt size @ '' bytes''
                       @ (if backupPath \<noteq> [] then [LF] @ ''Backup: '' @ backupPath else [])
          in (Inr \<lparr>Content = [TextContent result], IsError = False\<rparr>, w7))))))))"

section \<open>find_duplicates (\<^verbatim>\<open>handler_search.go\<close>)\<close>

record DuplicateFile =
  dupPath :: string
  dupHash :: string
  dupSize :: int

text \<open>A Go map from hashes to lists of files, as an association list with one pair for
  each key. Appending to the list of a key that is not in the map starts a new list. A Go
  loop over a map visits the keys in an order that is not specified; here it is the order
  of the pairs.\<close>

type_synonym hash_map = "(string \<times> DuplicateFile list) list"

fun appendAt :: "hash_map \<Rightarrow> string \<Rightarrow> DuplicateFile \<Rightarrow> hash_map" where
  "appendAt [] hash d = [(hash, [d])]"
| "appendAt ((k, ds) # rest) hash d =
     (if k = hash then (k, ds @ [d]) # rest else (k, ds) # appendAt rest hash d)"

definition sizeLimit :: int where
  "sizeLimit = 100 * 1024 * 1024"

text \<open>calculateFileMD5 opens the file and hashes all it reads; the digest is the
  environment's function of the content.\<close>

definition calculateFileMD5 ::
  "os_env \<Rightarrow> string \<Rightarrow> world \<Rightarrow> (os_error + string) \<times> world" where
  "calculateFileMD5 env filePath w =
     (case os_ReadFile env filePath w of
        (Inl e, w1) \<Rightarrow> (Inl e, w1)
      | (Inr content, w1) \<Rightarrow> (Inr (md5hex env content), w1))"

text \<open>The function that filepath.Walk calls for each entry; it never returns an error, so
  the walk visits every entry and returns none.\<close>

definition visitEntry ::
  "os_env \<Rightarrow> FilesystemHandler \<Rightarrow> walk_entry \<Rightarrow> hash_map \<times> world \<Rightarrow> hash_map \<times> world" where
  "visitEntry env fs entry st =
     (case st of (hashMap, w) \<Rightarrow>
        if entryFailed entry \<or> isDir (entryInfo entry) then (hashMap, w)
        else
          (case validatePath env fs (entryPath entry) w of
             (Inl err, w1) \<Rightarrow> (hashMap, w1)
           | (Inr v, w1) \<Rightarrow>
               if sizeLimit < fileSize (entryInfo entry) then (hashMap, w1)
               else
                 (case calculateFileMD5 env (entryPath entry) w1 of
                    (Inl e, w2) \<Rightarrow> (hashMap, w2)
                  | (Inr hash, w2) \<Rightarrow>
                      (appendAt hashMap hash
                         \<lparr>dupPath = entryPath entry, dupHash = hash,
                          dupSize = fileSize (entryInfo entry)\<rparr>, w2))))"

definition findDuplicateFiles ::
  "os_env \<Rightarrow> FilesystemHandler \<Rightarrow> string \<Rightarrow> world \<Rightarrow> hash_map \<times> world" where
  "findDuplicateFiles env fs path w =
     (case foldl (\<lambda>st entry. visitEntry env fs entry st) ([], logCall (SysWalk path) w)
             (walkEntries env path) of
        (hashMap, w') \<Rightarrow> (filter (\<lambda>(hash, files). 1 < length files) hashMap, w'))"

text \<open>Arithmetic on Go's int64 wraps around.\<close>

definition int64 :: "int \<Rightarrow> int" where
  "int64 x = (x + 2 ^ 63) mod 2 ^ 64 - 2 ^ 63"

text \<open>What the report says about one group: the first sixteen characters of the hash, the
  size of the group's first file, the wasted space, and the paths.\<close>

record group_report =
  hashPrefix :: string
  sizeEach :: int
  wastedSpace :: int
  paths :: "string list"

definition groupReport :: "string \<Rightarrow> DuplicateFile list \<Rightarrow> group_report" where
  "groupReport hash files =
     \<lparr>hashPrefix = take 16 hash @ ''...'',
      sizeEach = dupSize (hd files),
      wastedSpace = int64 (dupSize (hd files) * int64 (int (length files) - 1)),
      paths = map dupPath files\<rparr>"

text \<open>The loop of handleFindDuplicates over the groups: the reports, and the running total
  of the wasted space.\<close>

fun reportLoop :: "hash_map \<Rightarrow> group_report list \<times> int \<Rightarrow> group_report list \<times> int" where
  "reportLoop [] acc = acc"
| "reportLoop ((hash, files) # rest) (reports, totalWastedSpace) =
     (if 1 < length files
      then reportLoop rest
             (reports @ [groupReport hash files],
              int64 (totalWastedSpace + wastedSpace (groupReport hash files)))
      else reportLoop rest (reports, totalWastedSpace))"

text \<open>The text of the report. The last line also gives the total in megabytes with two
  decimals; that number is printed from a floating-point division and is left out here.\<close>

definition magnifierMark :: string where
  "magnifierMark = [CHR 0xF0, CHR 0x9F, CHR 0x94, CHR 0x8D]"

definition clipboardMark :: string where
  "clipboardMark = [CHR 0xF0, CHR 0x9F, CHR 0x93, CHR 0x8B]"

definition pageMark :: string where
  "pageMark = [CHR 0xF0, CHR 0x9F, CHR 0x93, CHR 0x84]"

definition diskMark :: string where
  "diskMark = [CHR 0xF0, CHR 0x9F, CHR 0x92, CHR 0xBE]"

definition groupText :: "group_report \<Rightarrow> string" where
  "groupText g =
     clipboardMark @ '' Hash: '' @ hashPrefix g @ [LF]
     @ ''   Size: '' @ fmtInt (sizeEach g) @ '' bytes each'' @ [LF]
     @ ''   Wasted space: '' @ fmtInt (wastedSpace g) @ '' bytes'' @ [LF]
     @ concat (map (\<lambda>p. ''   '' @ pageMark @ '' '' @ p @ [LF]) (paths g))
     @ [LF]"

definition duplicatesText :: "nat \<Rightarrow> group_report list \<Rightarrow> int \<Rightarrow> string" where
  "duplicatesText n reports totalWastedSpace =
     magnifierMark @ '' Found '' @ fmtInt (int n) @ '' groups of duplicate files:'' @ [LF, LF]
     @ concat (map groupText reports)
     @ diskMark @ '' Total wasted space: '' @ fmtInt totalWastedSpace @ '' bytes''"

text \<open>handleFindDuplicates. Slicing the hash to sixteen characters panics on a shorter
  string.\<close>

definition handleFindDuplicates ::
  "os_env \<Rightarrow> FilesystemHandler \<Rightarrow> arguments \<Rightarrow> world \<Rightarrow> (go_error + CallToolResult) \<times> world"
where
  "handleFindDuplicates env fs args w =
     (let path = stringArg args ''path'' in
      if path = [] then (Inr (errorResult (crossMark @ '' Error: path is required'')), w)
      else
        (case validatePath env fs path w of
           (Inl err, w1) \<Rightarrow>
             (Inr (errorResult (crossMark @ '' Error: Path error: '' @ err)), w1)
         | (Inr validPath, w1) \<Rightarrow>
             (case findDuplicateFiles env fs validPath w1 of
                (duplicates, w2) \<Rightarrow>
                  if length duplicates = 0
                  then (Inr \<lparr>Content = [TextContent (checkMark @ '' No duplicate files found'')],
                             IsError = False\<rparr>, w2)
                  else if list_ex (\<lambda>(hash, files). length hash < 16) duplicates
                  then (Inl ''runtime error: slice bounds out of range'', w2)
                  else
                    (case reportLoop duplicates ([], 0) of
                       (reports, totalWastedSpace) \<Rightarrow>
                         (Inr \<lparr>Content =
                                 [TextContent (duplicatesText (length duplicates) reports
                                                 totalWastedSpace)],
                               IsError = False\<rparr>, w2)))))"


section \<open>find_duplicates: what the specification describes\<close>





text \<open>The paths of the files that were opened and read, in the order of the calls.\<close>

fun readPath :: "syscall \<Rightarrow> string list" where
  "readPath (SysReadFile p) = [p]"
| "readPath c = []"

definition filesRead :: "world \<Rightarrow> string list" where
  "filesRead w = concat (map readPath (trace w))"





section \<open>A concrete system for the scenarios\<close>

text \<open>The sandbox of the end-to-end scenarios of the specification: the allowed directory
  \<open>/srv/data\<close> with two text files, two copies of a small binary file, an image of two
  mebibytes, a text file of ten mebibytes, two equal files of one byte more than a hundred mebibytes
  (the contents of the large files are cut short here) and the symbolic link \<open>link\<close> to
  \<open>/etc/passwd\<close>; beside it the directory \<open>/srv/data_secret\<close>, and the directories
  \<open>/tmp/foo\<close> and \<open>/tmp/foobar\<close>.\<close>

text \<open>A file with Windows and old Macintosh line endings: \<open>one\<close>, \<open>two\<close> and
  \<open>three\<close> end in CR LF, CR LF and CR.\<close>

definition crlf_content :: string where
  "crlf_content = ''one'' @ [CR, LF] @ ''two'' @ [CR, LF] @ ''three'' @ [CR] @ ''four''"

definition scenarioDir :: file_info where
  "scenarioDir = \<lparr>isDir = True, fileSize = 4096\<rparr>"

definition scenarioStat :: "(string \<times> file_info) list" where
  "scenarioStat =
     [(''/'', scenarioDir), (''/srv'', scenarioDir), (''/srv/data'', scenarioDir),
      (''/etc'', scenarioDir), (''/srv/data_secret'', scenarioDir),
      (''/tmp'', scenarioDir), (''/tmp/foo'', scenarioDir), (''/tmp/foobar'', scenarioDir),
      (''/srv/data/notes.txt'', \<lparr>isDir = False, fileSize = 54\<rparr>),
      (''/srv/data/crlf.txt'', \<lparr>isDir = False, fileSize = 21\<rparr>),
      (''/srv/data/a.bin'', \<lparr>isDir = False, fileSize = 3\<rparr>),
      (''/srv/data/b.bin'', \<lparr>isDir = False, fileSize = 3\<rparr>),
      (''/srv/data/logo.png'', \<lparr>isDir = False, fileSize = 2097152\<rparr>),
      (''/srv/data/big.txt'', \<lparr>isDir = False, fileSize = 10485760\<rparr>),
      (''/srv/data/huge1.iso'', \<lparr>isDir = False, fileSize = 104857601\<rparr>),
      (''/srv/data/huge2.iso'', \<lparr>isDir = False, fileSize = 104857601\<rparr>),
      (''/srv/data/link'', \<lparr>isDir = False, fileSize = 10\<rparr>),
      (''/etc/passwd'', \<lparr>isDir = False, fileSize = 10\<rparr>),
      (''/srv/data_secret/x'', \<lparr>isDir = False, fileSize = 6\<rparr>)]"

definition scenarioLinks :: "(string \<times> string) list" where
  "scenarioLinks =
     [(''/'', ''/''), (''/srv'', ''/srv''), (''/srv/data'', ''/srv/data''), (''/etc'', ''/etc''),
      (''/srv/data_secret'', ''/srv/data_secret''),
      (''/tmp'', ''/tmp''), (''/tmp/foo'', ''/tmp/foo''), (''/tmp/foobar'', ''/tmp/foobar''),
      (''/srv/data/notes.txt'', ''/srv/data/notes.txt''),
      (''/srv/data/crlf.txt'', ''/srv/data/crlf.txt''),
      (''/srv/data/a.bin'', ''/srv/data/a.bin''),
      (''/srv/data/b.bin'', ''/srv/data/b.bin''),
      (''/srv/data/logo.png'', ''/srv/data/logo.png''),
      (''/srv/data/big.txt'', ''/srv/data/big.txt''),
      (''/srv/data/huge1.iso'', ''/srv/data/huge1.iso''),
      (''/srv/data/huge2.iso'', ''/srv/data/huge2.iso''),
      (''/srv/data/link'', ''/etc/passwd''),
      (''/etc/passwd'', ''/etc/passwd''),
      (''/srv/data_secret/x'', ''/srv/data_secret/x'')]"

definition scenarioMime :: "string \<Rightarrow> string" where
  "scenarioMime path =
     (if stringsHasSuffix path ''.png'' then ''image/png''
      else if stringsHasSuffix path ''.bin'' then ''application/octet-stream''
      else ''text/plain; charset=utf-8'')"

text \<open>A stand-in for the MD5 digest in the scenarios: thirty-two characters that depend on
  the content.\<close>

definition scenarioDigest :: "string \<Rightarrow> string" where
  "scenarioDigest content = take 32 (base64Encode content @ replicate 32 (CHR ''0''))"

definition scenarioWalk :: "string \<Rightarrow> walk_entry list" where
  "scenarioWalk path =
     map (\<lambda>(p, i). \<lparr>entryPath = p, entryInfo = i, entryFailed = False\<rparr>)
       (filter (\<lambda>(p, i). p = path \<or> prefix (path @ [Separator]) p) scenarioStat)"

definition scenarioEnv :: os_env where
  "scenarioEnv =
     \<lparr>getwd = Inr ''/srv/data'',
      stat = (\<lambda>path. case map_of scenarioStat path of
                        Some info \<Rightarrow> Inr info
                      | None \<Rightarrow> Inl (notExistError ''stat'' path)),
      evalSymlinks = (\<lambda>path. case map_of scenarioLinks path of
                                Some real \<Rightarrow> Inr real
                              | None \<Rightarrow> Inl (notExistError ''lstat'' path)),
      mimeOf = scenarioMime,
      walkEntries = scenarioWalk,
      md5hex = scenarioDigest,
      faultOf = (\<lambda>calls call. None)\<rparr>"

definition scenarioWorld :: world where
  "scenarioWorld =
     \<lparr>fileContents = map_of [(''/srv/data/notes.txt'', scenario_content),
                              (''/srv/data/crlf.txt'', crlf_content),
                              (''/srv/data/a.bin'', ''abc''),
                              (''/srv/data/b.bin'', ''abc''),
                              (''/srv/data/logo.png'', CHR 0x89 # ''PNG''),
                              (''/srv/data/huge1.iso'', ''iso''),
                              (''/srv/data/huge2.iso'', ''iso''),
                              (''/etc/passwd'', ''root:x:0:0''),
                              (''/srv/data_secret/x'', ''secret'')],
      trace = []\<rparr>"

definition scenarioHandler :: FilesystemHandler where
  "scenarioHandler = \<lparr>allowedDirs = [''/srv/data/'']\<rparr>"

text \<open>The same system with a disk that fills up: a write to \<open>path\<close> stops after \<open>k\<close>
  bytes.\<close>

definition diskFull :: os_error where
  "diskFull = OsError False ''no space left on device''"

definition fullDiskEnv :: "string \<Rightarrow> nat \<Rightarrow> os_env" where
  "fullDiskEnv path k =
     scenarioEnv\<lparr>faultOf := (\<lambda>calls call.
        case call of
          SysWriteFile p d \<Rightarrow> if p = path then Some (FailsAfter k diskFull) else None
        | _ \<Rightarrow> None)\<rparr>"


text \<open>The same system where renaming the file at \<open>path\<close> is refused.\<close>

definition renameFailsEnv :: "string \<Rightarrow> os_env" where
  "renameFailsEnv path =
     scenarioEnv\<lparr>faultOf := (\<lambda>calls call.
        case call of
          SysRename p q \<Rightarrow> if p = path then Some (Fails (OsError False ''permission denied''))
                           else None
        | _ \<Rightarrow> None)\<rparr>"

text \<open>The arguments of an \<open>edit_file\<close>, a \<open>write_file_safe\<close> and a \<open>find_duplicates\<close>
  request.\<close>

definition dupArgs :: "string \<Rightarrow> arguments" where
  "dupArgs path = [''path'' \<mapsto> JString path]"

definition editArgs :: "string \<Rightarrow> string \<Rightarrow> string \<Rightarrow> arguments" where
  "editArgs path oldText newText =
     [''path'' \<mapsto> JString path, ''old_text'' \<mapsto> JString oldText,
      ''new_text'' \<mapsto> JString newText]"

definition writeArgs :: "string \<Rightarrow> string \<Rightarrow> bool \<Rightarrow> arguments" where
  "writeArgs path content createBackupFlag =
     [''path'' \<mapsto> JString path, ''content'' \<mapsto> JString content,
      ''create_backup'' \<mapsto> JBool createBackupFlag]"


section \<open>Properties of the string functions\<close>

lemma stringsIndex_None_iff: "stringsIndex s substr = None \<longleftrightarrow> \<not> sublist substr s"
  by (induction s) (auto simp: sublist_Cons_right)

lemma stringsContains_iff: "stringsContains s substr \<longleftrightarrow> sublist substr s"
  by (simp add: stringsContains_def stringsIndex_None_iff)

lemma stringsIndex_Some_split:
  "stringsIndex s substr = Some i \<Longrightarrow> s = take i s @ substr @ drop (i + length substr) s"
proof (induction s arbitrary: i)
  case Nil
  then show ?case by (simp split: if_splits)
next
  case (Cons c cs)
  show ?case
  proof (cases "prefix substr (c # cs)")
    case True
    with Cons.prems have "i = 0" by simp
    with True show ?thesis by (auto simp: prefix_def)
  next
    case False
    with Cons.prems obtain j where j: "stringsIndex cs substr = Some j" "i = Suc j"
      by auto
    from Cons.IH [OF j(1)] j(2) show ?thesis by simp
  qed
qed

lemma stringsIndex_Some_leftmost:
  "stringsIndex s substr = Some i \<Longrightarrow> substr \<noteq> [] \<Longrightarrow>
     \<not> sublist substr (take i s @ butlast substr)"
proof (induction s arbitrary: i)
  case Nil
  then show ?case by (simp split: if_splits)
next
  case (Cons c cs)
  show ?case
  proof (cases "prefix substr (c # cs)")
    case True
    with Cons.prems have "i = 0" by simp
    moreover have "\<not> sublist substr (butlast substr)"
    proof
      assume "sublist substr (butlast substr)"
      from sublist_length_le [OF this] Cons.prems(2) show False
        by (cases substr rule: rev_cases) auto
    qed
    ultimately show ?thesis by simp
  next
    case False
    with Cons.prems obtain j where j: "stringsIndex cs substr = Some j" "i = Suc j"
      by auto
    from Cons.IH [OF j(1) Cons.prems(2)]
    have ih: "\<not> sublist substr (take j cs @ butlast substr)" .
    have "prefix (take j cs @ butlast substr) cs"
    proof -
      have "cs = take j cs @ substr @ drop (j + length substr) cs"
        by (rule stringsIndex_Some_split [OF j(1)])
      moreover have "prefix (butlast substr) substr"
        by (simp add: prefixeq_butlast)
      ultimately show ?thesis
        by (metis prefix_append prefix_order.dual_order.refl prefix_def append.assoc)
    qed
    then have "prefix (c # take j cs @ butlast substr) (c # cs)" by simp
    with False have "\<not> prefix substr (c # take j cs @ butlast substr)"
      using prefix_order.trans by blast
    with ih j(2) show ?thesis by (simp add: sublist_Cons_right)
  qed
qed

lemma stringsCount_pos_iff:
  assumes "substr \<noteq> []"
  shows "0 < stringsCount s substr \<longleftrightarrow> sublist substr s"
proof (cases "stringsIndex s substr")
  case None
  with assms have "stringsCount s substr = 0" by (subst stringsCount.simps) simp
  with None show ?thesis by (simp add: stringsIndex_None_iff)
next
  case (Some i)
  with assms have "0 < stringsCount s substr" by (subst stringsCount.simps) simp
  moreover from Some have "sublist substr s"
    using stringsIndex_None_iff [of s substr] by simp
  ultimately show ?thesis by simp
qed

lemma replaceLoop_replaced_all:
  "old \<noteq> [] \<Longrightarrow>
     replaced_all old new s (replaceLoop (stringsCount s old) first s old new) (stringsCount s old)"
proof (induction s old arbitrary: first rule: stringsCount.induct)
  case (1 s substr)
  show ?case
  proof (cases "stringsIndex s substr")
    case None
    with 1(2) have c: "stringsCount s substr = 0" by (subst stringsCount.simps) simp
    from None have "\<not> sublist substr s" by (simp add: stringsIndex_None_iff)
    with c show ?thesis by (simp add: replaced_all.no_occurrence)
  next
    case (Some i)
    let ?rest = "drop (i + length substr) s"
    from Some 1(2) have c: "stringsCount s substr = Suc (stringsCount ?rest substr)"
      by (subst stringsCount.simps) simp
    have ih: "replaced_all substr new ?rest
                (replaceLoop (stringsCount ?rest substr) False ?rest substr new)
                (stringsCount ?rest substr)"
      by (rule 1(1) [OF 1(2) Some 1(2)])
    have "replaced_all substr new s
            (take i s @ new @ replaceLoop (stringsCount ?rest substr) False ?rest substr new)
            (Suc (stringsCount ?rest substr))"
      by (rule replaced_all.leftmost_occurrence
            [OF stringsIndex_Some_split [OF Some] stringsIndex_Some_leftmost [OF Some 1(2)] ih])
    with c Some 1(2) show ?thesis by simp
  qed
qed

lemma replaced_all_same:
  "old \<noteq> [] \<Longrightarrow> replaced_all old old s s (stringsCount s old)"
proof (induction s old rule: stringsCount.induct)
  case (1 s substr)
  show ?case
  proof (cases "stringsIndex s substr")
    case None
    with 1(2) have c: "stringsCount s substr = 0" by (subst stringsCount.simps) simp
    from None have "\<not> sublist substr s" by (simp add: stringsIndex_None_iff)
    with c show ?thesis by (simp add: replaced_all.no_occurrence)
  next
    case (Some i)
    let ?rest = "drop (i + length substr) s"
    from Some 1(2) have c: "stringsCount s substr = Suc (stringsCount ?rest substr)"
      by (subst stringsCount.simps) simp
    have ih: "replaced_all substr substr ?rest ?rest (stringsCount ?rest substr)"
      by (rule 1(1) [OF 1(2) Some 1(2)])
    have "replaced_all substr substr s (take i s @ substr @ ?rest) (Suc (stringsCount ?rest substr))"
      by (rule replaced_all.leftmost_occurrence
            [OF stringsIndex_Some_split [OF Some] stringsIndex_Some_leftmost [OF Some 1(2)] ih])
    with c stringsIndex_Some_split [OF Some] show ?thesis by simp
  qed
qed

lemma stringsReplaceAll_replaced_all:
  assumes "old \<noteq> []"
  shows "replaced_all old new s (stringsReplaceAll s old new) (stringsCount s old)"
proof (cases "old = new")
  case True
  with replaced_all_same [OF assms, of s] show ?thesis
    by (simp add: stringsReplaceAll_def stringsReplace_def)
next
  case False
  show ?thesis
  proof (cases "stringsCount s old = 0")
    case True
    with assms have "\<not> sublist old s" using stringsCount_pos_iff [of old s] by simp
    with True False show ?thesis
      by (simp add: stringsReplaceAll_def stringsReplace_def replaced_all.no_occurrence)
  next
    case nz: False
    with False replaceLoop_replaced_all [OF assms, of new s True] show ?thesis
      by (simp add: stringsReplaceAll_def stringsReplace_def Let_def)
  qed
qed

lemma sublist_singleton_iff: "sublist [x] ys \<longleftrightarrow> x \<in> set ys"
  by (induction ys) (auto simp: sublist_Cons_right)

lemma stringsSplit_nonempty: "stringsSplit s sep \<noteq> []"
  by (subst stringsSplit.simps) (simp split: option.splits)

lemma stringsJoin_Cons: "rest \<noteq> [] \<Longrightarrow> stringsJoin (a # rest) sep = a @ sep @ stringsJoin rest sep"
  by (cases rest) simp_all

lemma stringsJoin_Split: "stringsJoin (stringsSplit s sep) sep = s"
proof (induction s sep rule: stringsSplit.induct)
  case (1 s sep)
  show ?case
  proof (cases "sep = []")
    case True
    then show ?thesis by (subst stringsSplit.simps) simp
  next
    case False
    show ?thesis
    proof (cases "stringsIndex s sep")
      case None
      with False show ?thesis by (subst stringsSplit.simps) simp
    next
      case (Some i)
      with False have "stringsSplit s sep = take i s # stringsSplit (drop (i + length sep) s) sep"
        by (subst stringsSplit.simps) simp
      with 1 [OF False Some] stringsIndex_Some_split [OF Some] show ?thesis
        by (simp add: stringsJoin_Cons stringsSplit_nonempty)
    qed
  qed
qed

lemma stringsSplit_lines: "l \<in> set (stringsSplit s [c]) \<Longrightarrow> c \<notin> set l"
proof (induction s "[c]" arbitrary: l rule: stringsSplit.induct)
  case (1 s)
  show ?case
  proof (cases "stringsIndex s [c]")
    case None
    then have "c \<notin> set s" by (simp add: stringsIndex_None_iff sublist_singleton_iff)
    moreover from None 1(2) have "l = s" by (subst (asm) stringsSplit.simps) simp
    ultimately show ?thesis by simp
  next
    case (Some i)
    with 1(2) have "l = take i s \<or> l \<in> set (stringsSplit (drop (i + length [c]) s) [c])"
      by (subst (asm) stringsSplit.simps) auto
    moreover from stringsIndex_Some_leftmost [OF Some] have "c \<notin> set (take i s)"
      by (simp add: sublist_singleton_iff)
    ultimately show ?thesis using 1(1) [OF _ Some] by auto
  qed
qed




















section \<open>The editor: exact matches\<close>

lemma normalizeLineEndings_Nil: "normalizeLineEndings [] = []"
  by (simp add: normalizeLineEndings_def stringsReplaceAll_def stringsReplace_def
      stringsCount.simps [of "[]"])

lemma performIntelligentEdit_exact:
  assumes "normalizeLineEndings oldText \<noteq> []"
    and "sublist (normalizeLineEndings oldText) (normalizeLineEndings content)"
  shows "performIntelligentEdit re content oldText newText =
     (Some \<lparr>ModifiedContent =
               stringsReplaceAll (normalizeLineEndings content) (normalizeLineEndings oldText)
                 (normalizeLineEndings newText),
             ReplacementCount =
               stringsCount (normalizeLineEndings content) (normalizeLineEndings oldText),
             MatchConfidence = ''high'',
             LinesAffected =
               length (filter (\<lambda>line. stringsContains line (normalizeLineEndings oldText))
                         (stringsSplit (normalizeLineEndings content) [LF]))\<rparr>,
      None)"
proof -
  from assms(1) have "oldText \<noteq> []"
    using normalizeLineEndings_Nil by auto
  moreover from assms have "0 < stringsCount (normalizeLineEndings content) (normalizeLineEndings oldText)"
    by (simp add: stringsCount_pos_iff)
  ultimately show ?thesis
    by (simp add: performIntelligentEdit_def Let_def)
qed

text \<open>Claim C4. When, after the line endings are normalised to line feeds, the old text is
  not empty and occurs literally in the content, the editor returns a result and no error:
  the modified content is the content with all occurrences of the old text replaced by the
  new text, the replacement count is the number of these occurrences (at least one), the
  confidence is \<open>high\<close>, and the number of affected lines is the number of lines of the
  content (the segments between line feeds) in which the old text occurs. An empty old
  text is rejected whatever the other arguments are.\<close>

theorem exact_match_edit:
  assumes nonempty: "normalizeLineEndings oldText \<noteq> []"
    and occurs: "sublist (normalizeLineEndings oldText) (normalizeLineEndings content)"
  shows "(\<exists>r. performIntelligentEdit re content oldText newText = (Some r, None)
            \<and> replaced_all (normalizeLineEndings oldText) (normalizeLineEndings newText)
                 (normalizeLineEndings content) (ModifiedContent r) (ReplacementCount r)
            \<and> 0 < ReplacementCount r
            \<and> MatchConfidence r = ''high''
            \<and> (\<exists>ls. ls \<noteq> [] \<and> stringsJoin ls [LF] = normalizeLineEndings content
                   \<and> (\<forall>l \<in> set ls. LF \<notin> set l)
                   \<and> LinesAffected r
                       = length (filter (sublist (normalizeLineEndings oldText)) ls)))
         \<and> performIntelligentEdit re content' [] newText' = (None, Some OldTextEmpty)"
proof -
  let ?c = "normalizeLineEndings content"
  let ?o = "normalizeLineEndings oldText"
  let ?n = "normalizeLineEndings newText"
  let ?r = "\<lparr>ModifiedContent = stringsReplaceAll ?c ?o ?n,
            ReplacementCount = stringsCount ?c ?o,
            MatchConfidence = ''high'',
            LinesAffected = length (filter (\<lambda>line. stringsContains line ?o)
                                      (stringsSplit ?c [LF]))\<rparr>"
  from occurs nonempty have pos: "0 < stringsCount ?c ?o"
    by (simp add: stringsCount_pos_iff)
  have run: "performIntelligentEdit re content oldText newText = (Some ?r, None)"
    by (rule performIntelligentEdit_exact [OF nonempty occurs])
  have repl: "replaced_all ?o ?n ?c (ModifiedContent ?r) (ReplacementCount ?r)"
    using stringsReplaceAll_replaced_all [OF nonempty] by simp
  have lines: "\<exists>ls. ls \<noteq> [] \<and> stringsJoin ls [LF] = ?c \<and> (\<forall>l \<in> set ls. LF \<notin> set l)
                 \<and> LinesAffected ?r = length (filter (sublist ?o) ls)"
  proof (intro exI [of _ "stringsSplit ?c [LF]"] conjI ballI)
    show "stringsSplit ?c [LF] \<noteq> []" by (rule stringsSplit_nonempty)
    show "stringsJoin (stringsSplit ?c [LF]) [LF] = ?c" by (rule stringsJoin_Split)
    show "LF \<notin> set l" if "l \<in> set (stringsSplit ?c [LF])" for l
      using that by (rule stringsSplit_lines)
    show "LinesAffected ?r = length (filter (sublist ?o) (stringsSplit ?c [LF]))"
      by (simp add: stringsContains_iff)
  qed
  have empty: "performIntelligentEdit re content' [] newText' = (None, Some OldTextEmpty)"
    by (simp add: performIntelligentEdit_def)
  from run repl pos lines empty show ?thesis
    by (intro conjI exI [of _ ?r]) simp_all
qed

text \<open>The theorem at the exact-match scenario of the specification: one replacement on one
  line.\<close>

theorem exact_match_edit_witness:
  "normalizeLineEndings ''line 2'' \<noteq> []
   \<and> sublist (normalizeLineEndings ''line 2'') (normalizeLineEndings scenario_content)
   \<and> performIntelligentEdit noMatchEngine scenario_content ''line 2'' ''LINE TWO''
       = (Some \<lparr>ModifiedContent = ''This is line 1'' @ [LF] @ ''This is LINE TWO'' @ [LF]
                                     @ ''    This has indentation'',
                 ReplacementCount = 1, MatchConfidence = ''high'', LinesAffected = 1\<rparr>, None)
   \<and> (\<exists>r. performIntelligentEdit noMatchEngine scenario_content ''line 2'' ''LINE TWO''
              = (Some r, None)
            \<and> replaced_all (normalizeLineEndings ''line 2'') (normalizeLineEndings ''LINE TWO'')
                 (normalizeLineEndings scenario_content) (ModifiedContent r) (ReplacementCount r)
            \<and> MatchConfidence r = ''high'')"
proof -
  have h1: "normalizeLineEndings ''line 2'' \<noteq> []"
    by code_simp
  have h2: "sublist (normalizeLineEndings ''line 2'') (normalizeLineEndings scenario_content)"
    by code_simp
  have v: "performIntelligentEdit noMatchEngine scenario_content ''line 2'' ''LINE TWO''
       = (Some \<lparr>ModifiedContent = ''This is line 1'' @ [LF] @ ''This is LINE TWO'' @ [LF]
                                     @ ''    This has indentation'',
                 ReplacementCount = 1, MatchConfidence = ''high'', LinesAffected = 1\<rparr>, None)"
    by code_simp
  from exact_match_edit [OF h1 h2, of noMatchEngine "''LINE TWO''"] h1 h2 v show ?thesis
    by blast
qed

section \<open>The editor: applying an edit twice\<close>






section \<open>Properties of the path functions and of the allow-list check\<close>























lemma canonical_abs: "canonical q \<Longrightarrow> filepathIsAbs q"
  by (simp add: canonical_def)











section \<open>The path sandbox: what an accepted path guarantees\<close>



lemma isPathInAllowedDirs_world:
  "fst (isPathInAllowedDirs env fs path w) = pathAllowed env fs path"
  by (simp add: pathAllowed_def isPathInAllowedDirs_def filepathAbs_def os_Getwd_def os_Stat_def
      filepathIsAbs_def split: sum.splits prod.splits)

lemma NewFilesystemHandler_single:
  assumes "fst (NewFilesystemHandler env [d] w0) = Inr fs" and "canonical d"
  shows "allowedDirs fs = [d @ [Separator]]"
proof -
  from assms(2) have c: "filepathClean d = d" "filepathIsAbs d" by (simp_all add: canonical_def)
  from assms(1) show ?thesis
    by (auto simp: NewFilesystemHandler_def filepathAbs_def c os_Stat_def
        split: sum.splits prod.splits if_splits)
qed

lemma canonical_srv_data: "canonical ''/srv/data''"
  by code_simp

lemma canonical_tmp_foo: "canonical ''/tmp/foo''"
  by code_simp

lemma filepathAbs_literal:
  "filepathIsAbs p \<Longrightarrow> filepathClean p = p \<Longrightarrow> filepathAbs env p w = (Inr p, w)"
  by (simp add: filepathAbs_def)

text \<open>The allow-list check on a path that is not under the allowed directory, whatever the
  data of the path are: one call of os.Stat and the answer no.\<close>

lemma isPathInAllowedDirs_denied:
  assumes abs: "filepathIsAbs p" "filepathClean p = p"
    and nosuf: "\<not> stringsHasSuffix p [Separator]"
    and deny: "\<not> list_ex (stringsHasPrefix (p @ [Separator])) (allowedDirs fs)"
      "\<not> list_ex (stringsHasPrefix (filepathDir p @ [Separator])) (allowedDirs fs)"
  shows "isPathInAllowedDirs env fs p w = (False, logCall (SysStat p) w)"
  unfolding isPathInAllowedDirs_def filepathAbs_literal [OF abs] os_Stat_def
  using nosuf deny by (cases "stat env p") simp_all

lemma isPathInAllowedDirs_granted:
  assumes abs: "filepathIsAbs p" "filepathClean p = p"
    and nosuf: "\<not> stringsHasSuffix p [Separator]"
    and grant: "list_ex (stringsHasPrefix (p @ [Separator])) (allowedDirs fs)"
      "list_ex (stringsHasPrefix (filepathDir p @ [Separator])) (allowedDirs fs)"
  shows "isPathInAllowedDirs env fs p w = (True, logCall (SysStat p) w)"
  unfolding isPathInAllowedDirs_def filepathAbs_literal [OF abs] os_Stat_def
  using nosuf grant by (cases "stat env p") simp_all


lemma validatePath_resolved:
  assumes "fst (filepathAbs env r w) = Inr a" and "evalSymlinks env a = Inr real"
  shows "fst (validatePath env fs r w) =
     (if \<not> pathAllowed env fs a
      then Inl (''access denied - path outside allowed directories: '' @ a)
      else if pathAllowed env fs real then Inr real
      else Inl ''access denied - symlink target outside allowed directories'')"
proof -
  obtain w1 where abs: "filepathAbs env r w = (Inr a, w1)"
    using assms(1) by (cases "filepathAbs env r w") simp
  obtain b1 w2 where c1: "isPathInAllowedDirs env fs a w1 = (b1, w2)"
    by (cases "isPathInAllowedDirs env fs a w1")
  then have b1: "b1 = pathAllowed env fs a"
    using isPathInAllowedDirs_world [of env fs a w1] by simp
  obtain b2 w4 where c2:
    "isPathInAllowedDirs env fs real (logCall (SysEvalSymlinks a) w2) = (b2, w4)"
    by (cases "isPathInAllowedDirs env fs real (logCall (SysEvalSymlinks a) w2)")
  then have b2: "b2 = pathAllowed env fs real"
    using isPathInAllowedDirs_world [of env fs real "logCall (SysEvalSymlinks a) w2"] by simp
  show ?thesis
    unfolding validatePath_def abs
    using c1 c2 b1 b2 assms(2)
    by (cases b1; cases b2) (simp_all add: filepathEvalSymlinks_def)
qed






text \<open>Claim C2, as amended. With the allow-list \<open>/srv/data\<close>, read_file of
  \<open>/srv/data_secret/x\<close> returns the error envelope with the text \<open>access denied - path
  outside allowed directories\<close>, in every environment and state; the state is unchanged but
  for one call, the os.Stat of \<open>/srv/data_secret/x\<close> that the allow-list check makes to see
  whether the path is a file (no resolution of links, no opening, no reading). The
  comparison of prefixes that end in a separator keeps \<open>/srv/data\<close> from matching
  \<open>/srv/data_secret\<close>, and \<open>/tmp/foo\<close> from matching \<open>/tmp/foobar\<close>.\<close>

theorem prefix_trap_denied:
  assumes "fst (NewFilesystemHandler env [''/srv/data''] w0) = Inr fs"
    and "fst (NewFilesystemHandler env [''/tmp/foo''] w0') = Inr fs'"
  shows "handleReadFile env fs [''path'' \<mapsto> JString ''/srv/data_secret/x''] w
           = (Inr \<lparr>Content = [TextContent
                       ''Error: access denied - path outside allowed directories: /srv/data_secret/x''],
                    IsError = True\<rparr>,
              w\<lparr>trace := trace w @ [SysStat ''/srv/data_secret/x'']\<rparr>)
         \<and> stringsContains
              ''Error: access denied - path outside allowed directories: /srv/data_secret/x''
              ''access denied - path outside allowed directories''
         \<and> \<not> stringsHasPrefix ''/srv/data_secret/x/'' ''/srv/data/''
         \<and> \<not> pathAllowed env fs ''/srv/data_secret/x''
         \<and> \<not> pathAllowed env fs' ''/tmp/foobar''"
proof -
  let ?p = "''/srv/data_secret/x''"
  from NewFilesystemHandler_single [OF assms(1) canonical_srv_data]
  have fs: "allowedDirs fs = [''/srv/data/'']" by simp
  from NewFilesystemHandler_single [OF assms(2) canonical_tmp_foo]
  have fs': "allowedDirs fs' = [''/tmp/foo/'']" by simp
  have p: "filepathIsAbs ?p" "filepathClean ?p = ?p" "filepathDir ?p = ''/srv/data_secret''"
    by code_simp+
  have p': "\<not> stringsHasSuffix ?p [Separator]"
    "\<not> list_ex (stringsHasPrefix (?p @ [Separator])) [''/srv/data/'']"
    "\<not> list_ex (stringsHasPrefix (''/srv/data_secret'' @ [Separator])) [''/srv/data/'']"
    by code_simp+
  have check: "isPathInAllowedDirs env fs ?p w' = (False, logCall (SysStat ?p) w')" for w'
    using p' by (intro isPathInAllowedDirs_denied [OF p(1,2)]) (simp_all add: fs p(3))
  have q: "filepathIsAbs ''/tmp/foobar''" "filepathClean ''/tmp/foobar'' = ''/tmp/foobar''"
    "filepathDir ''/tmp/foobar'' = ''/tmp''"
    by code_simp+
  have q': "\<not> stringsHasSuffix ''/tmp/foobar'' [Separator]"
    "\<not> list_ex (stringsHasPrefix (''/tmp/foobar'' @ [Separator])) [''/tmp/foo/'']"
    "\<not> list_ex (stringsHasPrefix (''/tmp'' @ [Separator])) [''/tmp/foo/'']"
    by code_simp+
  have check': "isPathInAllowedDirs env fs' ''/tmp/foobar'' w'
      = (False, logCall (SysStat ''/tmp/foobar'') w')" for w'
    using q' by (intro isPathInAllowedDirs_denied [OF q(1,2)]) (simp_all add: fs' q(3))
  have v: "validatePath env fs ?p w
      = (Inl (''access denied - path outside allowed directories: '' @ ?p), logCall (SysStat ?p) w)"
    by (simp add: validatePath_def filepathAbs_literal [OF p(1,2)] check)
  have "handleReadFile env fs [''path'' \<mapsto> JString ?p] w
      = (Inr (errorResult (''Error: '' @ ''access denied - path outside allowed directories: '' @ ?p)),
         logCall (SysStat ?p) w)"
    by (simp add: handleReadFile_def currentDirShortcut_def v)
  moreover have "stringsContains
      ''Error: access denied - path outside allowed directories: /srv/data_secret/x''
      ''access denied - path outside allowed directories''"
    by code_simp
  moreover have "\<not> stringsHasPrefix ''/srv/data_secret/x/'' ''/srv/data/''"
    by code_simp
  moreover have "\<not> pathAllowed env fs ?p" "\<not> pathAllowed env fs' ''/tmp/foobar''"
    using check check' by (simp_all add: pathAllowed_def)
  ultimately show ?thesis
    by (simp add: errorResult_def logCall_def)
qed

text \<open>The theorem in the scenario system.\<close>

theorem prefix_trap_denied_witness:
  "fst (NewFilesystemHandler scenarioEnv [''/srv/data''] scenarioWorld) = Inr scenarioHandler
   \<and> fst (NewFilesystemHandler scenarioEnv [''/tmp/foo''] scenarioWorld)
       = Inr \<lparr>allowedDirs = [''/tmp/foo/'']\<rparr>
   \<and> handleReadFile scenarioEnv scenarioHandler [''path'' \<mapsto> JString ''/srv/data_secret/x'']
        scenarioWorld
       = (Inr \<lparr>Content = [TextContent
                   ''Error: access denied - path outside allowed directories: /srv/data_secret/x''],
                IsError = True\<rparr>,
          scenarioWorld\<lparr>trace := trace scenarioWorld @ [SysStat ''/srv/data_secret/x'']\<rparr>)
   \<and> \<not> pathAllowed scenarioEnv \<lparr>allowedDirs = [''/tmp/foo/'']\<rparr> ''/tmp/foobar''"
proof -
  have a: "fst (NewFilesystemHandler scenarioEnv [''/srv/data''] scenarioWorld)
      = Inr scenarioHandler"
    by code_simp
  have b: "fst (NewFilesystemHandler scenarioEnv [''/tmp/foo''] scenarioWorld)
       = Inr \<lparr>allowedDirs = [''/tmp/foo/'']\<rparr>"
    by code_simp
  from prefix_trap_denied [OF a b, of scenarioWorld] a b show ?thesis by simp
qed

text \<open>Claim C2 as stated fails in its middle part: the denied request does make a call on a
  path under \<open>/srv/data_secret\<close>, the os.Stat inside the allow-list check.\<close>

theorem stat_before_denial_counterexample:
  "fst (handleReadFile scenarioEnv scenarioHandler [''path'' \<mapsto> JString ''/srv/data_secret/x'']
          scenarioWorld)
     = Inr \<lparr>Content = [TextContent
                 ''Error: access denied - path outside allowed directories: /srv/data_secret/x''],
              IsError = True\<rparr>
   \<and> trace (snd (handleReadFile scenarioEnv scenarioHandler
                    [''path'' \<mapsto> JString ''/srv/data_secret/x''] scenarioWorld))
     = [SysStat ''/srv/data_secret/x'']"
  by code_simp

text \<open>Claim C3. When the absolute form of the requested path passes the allow-list check
  and filepath.EvalSymlinks resolves it, validatePath decides by the allow-list check on the
  resolved path: it returns the resolved path if the check passes and the error \<open>access
  denied - symlink target outside allowed directories\<close> otherwise. With the allow-list
  \<open>/srv/data\<close> and \<open>/srv/data/link\<close> resolving to \<open>/etc/passwd\<close>, read_file of
  \<open>/srv/data/link\<close> returns the error envelope with that text.\<close>

theorem symlink_target_rechecked:
  assumes "fst (NewFilesystemHandler env [''/srv/data''] w0) = Inr fs"
    and "evalSymlinks env ''/srv/data/link'' = Inr ''/etc/passwd''"
    and "fst (filepathAbs env r w') = Inr a"
    and "pathAllowed env fs' a"
    and "evalSymlinks env a = Inr real"
  shows "fst (validatePath env fs' r w') =
           (if pathAllowed env fs' real then Inr real
            else Inl ''access denied - symlink target outside allowed directories'')
         \<and> fst (handleReadFile env fs [''path'' \<mapsto> JString ''/srv/data/link''] w)
             = Inr \<lparr>Content = [TextContent
                    ''Error: access denied - symlink target outside allowed directories''],
                     IsError = True\<rparr>
         \<and> stringsContains
              ''Error: access denied - symlink target outside allowed directories''
              ''access denied - symlink target outside allowed directories''"
proof -
  let ?l = "''/srv/data/link''" and ?t = "''/etc/passwd''"
  from NewFilesystemHandler_single [OF assms(1) canonical_srv_data]
  have fs: "allowedDirs fs = [''/srv/data/'']" by simp
  have l: "filepathIsAbs ?l" "filepathClean ?l = ?l" "filepathDir ?l = ''/srv/data''"
    "\<not> stringsHasSuffix ?l [Separator]"
    "list_ex (stringsHasPrefix (?l @ [Separator])) [''/srv/data/'']"
    "list_ex (stringsHasPrefix (''/srv/data'' @ [Separator])) [''/srv/data/'']"
    by code_simp+
  have t: "filepathIsAbs ?t" "filepathClean ?t = ?t" "filepathDir ?t = ''/etc''"
    "\<not> stringsHasSuffix ?t [Separator]"
    "\<not> list_ex (stringsHasPrefix (?t @ [Separator])) [''/srv/data/'']"
    "\<not> list_ex (stringsHasPrefix (''/etc'' @ [Separator])) [''/srv/data/'']"
    by code_simp+
  have "isPathInAllowedDirs env fs ?l w = (True, logCall (SysStat ?l) w)"
    using l(4-6) by (intro isPathInAllowedDirs_granted [OF l(1,2)]) (simp_all add: fs l(3))
  then have first: "pathAllowed env fs ?l"
    using isPathInAllowedDirs_world [of env fs ?l w] by simp
  have "isPathInAllowedDirs env fs ?t w = (False, logCall (SysStat ?t) w)"
    using t(4-6) by (intro isPathInAllowedDirs_denied [OF t(1,2)]) (simp_all add: fs t(3))
  then have second: "\<not> pathAllowed env fs ?t"
    using isPathInAllowedDirs_world [of env fs ?t w] by simp
  have abs: "fst (filepathAbs env ?l w) = Inr ?l"
    by (simp add: filepathAbs_literal [OF l(1,2)])
  from validatePath_resolved [OF abs assms(2), of fs] first second
  have "fst (validatePath env fs ?l w)
      = Inl ''access denied - symlink target outside allowed directories''"
    by simp
  then obtain w2 where "validatePath env fs ?l w
      = (Inl ''access denied - symlink target outside allowed directories'', w2)"
    by (cases "validatePath env fs ?l w") simp
  then have read: "fst (handleReadFile env fs [''path'' \<mapsto> JString ?l] w)
      = Inr (errorResult (''Error: '' @ ''access denied - symlink target outside allowed directories''))"
    by (simp add: handleReadFile_def currentDirShortcut_def)
  have contains: "stringsContains
              ''Error: access denied - symlink target outside allowed directories''
              ''access denied - symlink target outside allowed directories''"
    by code_simp
  from validatePath_resolved [OF assms(3,5), of fs'] assms(4) read contains
  show ?thesis by (simp add: errorResult_def)
qed

text \<open>The theorem in the scenario system, the link requested by a relative path.\<close>

theorem symlink_target_rechecked_witness:
  "fst (NewFilesystemHandler scenarioEnv [''/srv/data''] scenarioWorld) = Inr scenarioHandler
   \<and> evalSymlinks scenarioEnv ''/srv/data/link'' = Inr ''/etc/passwd''
   \<and> fst (filepathAbs scenarioEnv ''link'' scenarioWorld) = Inr ''/srv/data/link''
   \<and> pathAllowed scenarioEnv scenarioHandler ''/srv/data/link''
   \<and> \<not> pathAllowed scenarioEnv scenarioHandler ''/etc/passwd''
   \<and> fst (validatePath scenarioEnv scenarioHandler ''link'' scenarioWorld)
       = Inl ''access denied - symlink target outside allowed directories''
   \<and> fst (handleReadFile scenarioEnv scenarioHandler [''path'' \<mapsto> JString ''/srv/data/link'']
            scenarioWorld)
       = Inr \<lparr>Content = [TextContent
                ''Error: access denied - symlink target outside allowed directories''],
               IsError = True\<rparr>"
proof -
  have a: "fst (NewFilesystemHandler scenarioEnv [''/srv/data''] scenarioWorld)
      = Inr scenarioHandler"
    by code_simp
  have b: "evalSymlinks scenarioEnv ''/srv/data/link'' = Inr ''/etc/passwd''"
    by code_simp
  have c: "fst (filepathAbs scenarioEnv ''link'' scenarioWorld) = Inr ''/srv/data/link''"
    by code_simp
  have d: "pathAllowed scenarioEnv scenarioHandler ''/srv/data/link''"
    by code_simp
  have e: "\<not> pathAllowed scenarioEnv scenarioHandler ''/etc/passwd''"
    by code_simp
  from symlink_target_rechecked [OF a b c d b, of scenarioWorld] a b c d e
  show ?thesis by simp
qed

section \<open>read_file: the forms of the result\<close>


lemma readFileResponse_no_error: "\<not> IsError (readFileResponse v info m c)"
  by (simp add: readFileResponse_def Let_def)






section \<open>The \<open>edit_file\<close> handler\<close>

subsection \<open>What a successful edit leaves in the file\<close>


lemma fileContents_logCall [simp]: "fileContents (logCall c w) = fileContents w"
  by (simp add: logCall_def)

















subsection \<open>An edit whose write fails\<close>

text \<open>Claim C6. The handler creates \<open>path.backup\<close> before editing. When the write of the edited
  content fails after the file was opened (here the disk is full after 5 bytes), the handler
  returns the error \<open>error writing file\<close>; the deferred cleanup then removes the backup, and
  nothing restores it: the file is left with the 5 bytes that were written, not with its prior
  contents, and no copy of the prior contents remains.\<close>

theorem edit_file_failed_write_evaluation:
  "fileContents scenarioWorld ''/srv/data/notes.txt'' = Some scenario_content
   \<and> fst (handleEditFile (fullDiskEnv ''/srv/data/notes.txt'' 5) noMatchEngine scenarioHandler
            (editArgs ''/srv/data/notes.txt'' ''line 2'' ''LINE TWO'') scenarioWorld)
       = Inl ''error writing file: no space left on device''
   \<and> fileContents (snd (handleEditFile (fullDiskEnv ''/srv/data/notes.txt'' 5) noMatchEngine
                          scenarioHandler
                          (editArgs ''/srv/data/notes.txt'' ''line 2'' ''LINE TWO'')
                          scenarioWorld)) ''/srv/data/notes.txt''
       = Some ''This ''
   \<and> fileContents (snd (handleEditFile (fullDiskEnv ''/srv/data/notes.txt'' 5) noMatchEngine
                          scenarioHandler
                          (editArgs ''/srv/data/notes.txt'' ''line 2'' ''LINE TWO'')
                          scenarioWorld)) ''/srv/data/notes.txt.backup''
       = None
   \<and> scenario_content \<noteq> ''This ''"
  by code_simp

text \<open>When the write of the backup itself fails, the handler returns before the cleanup is
  registered, and the partly written \<open>path.backup\<close> stays behind.\<close>

lemma edit_file_failed_backup_evaluation:
  "fileContents scenarioWorld ''/srv/data/notes.txt.backup'' = None
   \<and> fst (handleEditFile (fullDiskEnv ''/srv/data/notes.txt.backup'' 5) noMatchEngine
            scenarioHandler
            (editArgs ''/srv/data/notes.txt'' ''line 2'' ''LINE TWO'') scenarioWorld)
       = Inl ''could not create backup: no space left on device''
   \<and> fileContents (snd (handleEditFile (fullDiskEnv ''/srv/data/notes.txt.backup'' 5)
                          noMatchEngine scenarioHandler
                          (editArgs ''/srv/data/notes.txt'' ''line 2'' ''LINE TWO'')
                          scenarioWorld)) ''/srv/data/notes.txt.backup''
       = Some ''This ''
   \<and> fileContents (snd (handleEditFile (fullDiskEnv ''/srv/data/notes.txt.backup'' 5)
                          noMatchEngine scenarioHandler
                          (editArgs ''/srv/data/notes.txt'' ''line 2'' ''LINE TWO'')
                          scenarioWorld)) ''/srv/data/notes.txt''
       = Some scenario_content"
  by code_simp

text \<open>The other two exits behave as designed: after a successful edit and after an edit that
  finds no match the backup is gone, and without a match the file keeps its content.\<close>

lemma edit_file_success_evaluation:
  "fileContents (snd (handleEditFile scenarioEnv noMatchEngine scenarioHandler
                        (editArgs ''/srv/data/notes.txt'' ''line 2'' ''LINE TWO'')
                        scenarioWorld)) ''/srv/data/notes.txt.backup''
     = None
   \<and> fileContents (snd (handleEditFile scenarioEnv noMatchEngine scenarioHandler
                        (editArgs ''/srv/data/notes.txt'' ''line 2'' ''LINE TWO'')
                        scenarioWorld)) ''/srv/data/notes.txt''
     = Some (ModifiedContent scenario_edited)"
  by code_simp

lemma edit_file_no_match_evaluation:
  "fst (handleEditFile scenarioEnv noMatchEngine scenarioHandler
          (editArgs ''/srv/data/notes.txt'' ''non-existent text'' ''x'') scenarioWorld)
     = Inl (''no matches found for text: '' @ strconvQuote ''non-existent text'')
   \<and> fileContents (snd (handleEditFile scenarioEnv noMatchEngine scenarioHandler
                        (editArgs ''/srv/data/notes.txt'' ''non-existent text'' ''x'')
                        scenarioWorld)) ''/srv/data/notes.txt.backup''
     = None
   \<and> fileContents (snd (handleEditFile scenarioEnv noMatchEngine scenarioHandler
                        (editArgs ''/srv/data/notes.txt'' ''non-existent text'' ''x'')
                        scenarioWorld)) ''/srv/data/notes.txt''
     = Some scenario_content"
  by code_simp


section \<open>The \<open>write_file_safe\<close> handler\<close>

text \<open>Claim C8. When the write of the temporary file \<open>path.tmp\<close> fails after the file was
  created (here the disk is full after 4 bytes), the handler reports
  \<open>Error writing temp file\<close> and returns without removing \<open>path.tmp\<close>: the target keeps its
  prior contents, but the partly written temporary file stays behind. The branch for a failed
  rename, a few lines below, does remove it.\<close>

theorem write_file_safe_failed_write_evaluation:
  "fileContents scenarioWorld ''/srv/data/notes.txt.tmp'' = None
   \<and> fst (handleWriteFileSafe (fullDiskEnv ''/srv/data/notes.txt.tmp'' 4) scenarioHandler
            (writeArgs ''/srv/data/notes.txt'' ''hello world'' False) scenarioWorld)
       = Inr \<lparr>Content = [TextContent
                  (crossMark @ '' Error writing temp file: no space left on device'')],
               IsError = True\<rparr>
   \<and> fileContents (snd (handleWriteFileSafe (fullDiskEnv ''/srv/data/notes.txt.tmp'' 4)
                          scenarioHandler
                          (writeArgs ''/srv/data/notes.txt'' ''hello world'' False)
                          scenarioWorld)) ''/srv/data/notes.txt.tmp''
       = Some ''hell''
   \<and> fileContents (snd (handleWriteFileSafe (fullDiskEnv ''/srv/data/notes.txt.tmp'' 4)
                          scenarioHandler
                          (writeArgs ''/srv/data/notes.txt'' ''hello world'' False)
                          scenarioWorld)) ''/srv/data/notes.txt''
       = Some scenario_content"
  by code_simp

text \<open>The sibling branch: when the rename fails, the temporary file is removed and the target
  keeps its prior contents.\<close>

lemma write_file_safe_failed_rename_evaluation:
  "fst (handleWriteFileSafe (renameFailsEnv ''/srv/data/notes.txt.tmp'') scenarioHandler
            (writeArgs ''/srv/data/notes.txt'' ''hello world'' False) scenarioWorld)
       = Inr \<lparr>Content = [TextContent
                  (crossMark @ '' Error finalizing file: permission denied'')],
               IsError = True\<rparr>
   \<and> fileContents (snd (handleWriteFileSafe (renameFailsEnv ''/srv/data/notes.txt.tmp'')
                          scenarioHandler
                          (writeArgs ''/srv/data/notes.txt'' ''hello world'' False)
                          scenarioWorld)) ''/srv/data/notes.txt.tmp''
       = None
   \<and> fileContents (snd (handleWriteFileSafe (renameFailsEnv ''/srv/data/notes.txt.tmp'')
                          scenarioHandler
                          (writeArgs ''/srv/data/notes.txt'' ''hello world'' False)
                          scenarioWorld)) ''/srv/data/notes.txt''
       = Some scenario_content"
  by code_simp


section \<open>find_duplicates\<close>

subsection \<open>The walk groups the hashed files by digest\<close>





















subsection \<open>The files that are read\<close>










subsection \<open>The report\<close>







lemma find_duplicates_scenario_evaluation:
  "filesRead (snd (handleFindDuplicates scenarioEnv scenarioHandler (dupArgs ''/srv/data'')
                     scenarioWorld))
     = [''/srv/data/notes.txt'', ''/srv/data/crlf.txt'', ''/srv/data/a.bin'',
        ''/srv/data/b.bin'', ''/srv/data/logo.png'', ''/srv/data/big.txt'']
   \<and> fst (findDuplicateFiles scenarioEnv scenarioHandler ''/srv/data'' scenarioWorld)
     = [(scenarioDigest ''abc'',
         [\<lparr>dupPath = ''/srv/data/a.bin'', dupHash = scenarioDigest ''abc'', dupSize = 3\<rparr>,
          \<lparr>dupPath = ''/srv/data/b.bin'', dupHash = scenarioDigest ''abc'', dupSize = 3\<rparr>])]
   \<and> fst (handleFindDuplicates scenarioEnv scenarioHandler (dupArgs ''/srv/data'')
            scenarioWorld)
     = Inr \<lparr>Content = [TextContent
              (magnifierMark @ '' Found 1 groups of duplicate files:'' @ [LF, LF]
               @ clipboardMark @ '' Hash: YWJj000000000000...'' @ [LF]
               @ ''   Size: 3 bytes each'' @ [LF]
               @ ''   Wasted space: 3 bytes'' @ [LF]
               @ ''   '' @ pageMark @ '' /srv/data/a.bin'' @ [LF]
               @ ''   '' @ pageMark @ '' /srv/data/b.bin'' @ [LF]
               @ [LF]
               @ diskMark @ '' Total wasted space: 3 bytes'')],
             IsError = False\<rparr>"
  by code_simp

end
